theory Spec2Isabelle
  imports Complex_Main "HOL-Library.Sublist"
begin

section \<open>JavaScript values\<close>

text \<open>
  The supervisor is TypeScript running on a JavaScript engine. A field that the code
  leaves untyped (\<^verbatim>\<open>any\<close>) and the results of \<^verbatim>\<open>JSON.parse\<close> are values of
  \<open>jsval\<close>. A number is a finite real or \<^verbatim>\<open>NaN\<close> (the infinities are not
  modelled). An object is the list of its own properties in insertion order.
  A field with a declared interface that may also be \<^verbatim>\<open>undefined\<close> (or absent)
  or \<^verbatim>\<open>null\<close> is a \<open>nullable\<close>.
\<close>

datatype jsnum = NaN | Fin real

datatype jsval =
    JUndefined
  | JNull
  | JBool bool
  | JNum jsnum
  | JStr string
  | JArr "jsval list"
  | JObj "(string \<times> jsval) list"

datatype 'a nullable = Undefined | Null | Val 'a

text \<open>Truthiness, as \<^verbatim>\<open>if (v)\<close>, \<^verbatim>\<open>!v\<close>, \<^verbatim>\<open>a && b\<close> and \<^verbatim>\<open>a || b\<close> test it.\<close>

fun truthy :: "jsval \<Rightarrow> bool" where
  "truthy JUndefined = False"
| "truthy JNull = False"
| "truthy (JBool b) = b"
| "truthy (JNum NaN) = False"
| "truthy (JNum (Fin r)) = (r \<noteq> 0)"
| "truthy (JStr s) = (s \<noteq> [])"
| "truthy (JArr xs) = True"
| "truthy (JObj kvs) = True"

text \<open>An object behind a nullable field is truthy; a string is truthy unless empty.\<close>

fun present :: "'a nullable \<Rightarrow> bool" where
  "present (Val v) = True"
| "present Null = False"
| "present Undefined = False"

fun truthy_str :: "string nullable \<Rightarrow> bool" where
  "truthy_str (Val s) = (s \<noteq> [])"
| "truthy_str Null = False"
| "truthy_str Undefined = False"

text \<open>\<^verbatim>\<open>a || b\<close> on values and \<^verbatim>\<open>a ?? b\<close> on nullable fields.\<close>

definition js_or :: "jsval \<Rightarrow> jsval \<Rightarrow> jsval" where
  "js_or a b = (if truthy a then a else b)"

fun nullish_or :: "'a nullable \<Rightarrow> 'a nullable \<Rightarrow> 'a nullable" where
  "nullish_or (Val v) x = Val v"
| "nullish_or Null x = x"
| "nullish_or Undefined x = x"

text \<open>
  Property read \<^verbatim>\<open>v.k\<close> for the keys the code reads. On an object it is the
  property or \<^verbatim>\<open>undefined\<close>; on a primitive or an array none of these keys
  exists. The code guards every such read against \<^verbatim>\<open>null\<close> and
  \<^verbatim>\<open>undefined\<close>, so the model gives \<^verbatim>\<open>undefined\<close> there too.
\<close>

fun get_prop :: "jsval \<Rightarrow> string \<Rightarrow> jsval" where
  "get_prop (JObj kvs) k = (case map_of kvs k of Some v \<Rightarrow> v | None \<Rightarrow> JUndefined)"
| "get_prop v k = JUndefined"

text \<open>
  What the engine supplies and the repository only calls: \<^verbatim>\<open>JSON.parse\<close>
  (\<open>None\<close> when it throws), \<^verbatim>\<open>JSON.stringify\<close>, \<^verbatim>\<open>String(v)\<close> of a value that
  is not a string, the conversion to a number of a string, array or object, and the
  printing of a number in a template string. They are parameters of the model.
\<close>

record runtime =
  JSON_parse :: "string \<Rightarrow> jsval option"
  JSON_stringify :: "jsval \<Rightarrow> string"
  String_of :: "jsval \<Rightarrow> string"
  Number_of :: "jsval \<Rightarrow> jsnum"
  show_number :: "real \<Rightarrow> string"

fun js_toString :: "runtime \<Rightarrow> jsval \<Rightarrow> string" where
  "js_toString rt (JStr s) = s"
| "js_toString rt v = String_of rt v"

fun toNumber :: "runtime \<Rightarrow> jsval \<Rightarrow> jsnum" where
  "toNumber rt JUndefined = NaN"
| "toNumber rt JNull = Fin 0"
| "toNumber rt (JBool b) = Fin (if b then 1 else 0)"
| "toNumber rt (JNum n) = n"
| "toNumber rt v = Number_of rt v"

text \<open>\<^verbatim>\<open>Math.max(0, Math.min(1, n))\<close>: both propagate \<^verbatim>\<open>NaN\<close>.\<close>

fun clamp01 :: "jsnum \<Rightarrow> jsnum" where
  "clamp01 NaN = NaN"
| "clamp01 (Fin r) = Fin (max 0 (min 1 r))"

section \<open>Strings\<close>

text \<open>
  Strings are lists of 8-bit characters. \<open>toLowerCase\<close>, \<open>trim\<close> and the
  whitespace class \<^verbatim>\<open>\s\<close> are modelled on ASCII: the letters A to Z and the six
  ASCII whitespace characters.
\<close>

definition lower_char :: "char \<Rightarrow> char" where
  "lower_char c =
     (case map_of (zip ''ABCDEFGHIJKLMNOPQRSTUVWXYZ'' ''abcdefghijklmnopqrstuvwxyz'') c of
        Some d \<Rightarrow> d
      | None \<Rightarrow> c)"

definition toLowerCase :: "string \<Rightarrow> string" where
  "toLowerCase s = map lower_char s"

definition is_ws :: "char \<Rightarrow> bool" where
  "is_ws c = (c \<in> set [CHR 0x09, CHR 0x0A, CHR 0x0B, CHR 0x0C, CHR 0x0D, CHR '' ''])"

definition trim :: "string \<Rightarrow> string" where
  "trim s = rev (dropWhile is_ws (rev (dropWhile is_ws s)))"

text \<open>
  \<^verbatim>\<open>s.split(/\s+/)\<close>: the pieces between maximal runs of whitespace; a run at
  either end leaves an empty piece there, and the empty string gives one empty piece.
\<close>

fun split_from :: "string \<Rightarrow> bool \<Rightarrow> string \<Rightarrow> string list" where
  "split_from acc in_sep [] = [rev acc]"
| "split_from acc in_sep (c # cs) =
     (if is_ws c
      then (if in_sep then split_from acc True cs else rev acc # split_from [] True cs)
      else split_from (c # acc) False cs)"

definition split_ws :: "string \<Rightarrow> string list" where
  "split_ws s = split_from [] False s"

text \<open>\<^verbatim>\<open>s.includes(p)\<close>: \<open>p\<close> occurs in \<open>s\<close> as a contiguous substring.\<close>

fun starts_with :: "string \<Rightarrow> string \<Rightarrow> bool" where
  "starts_with s [] = True"
| "starts_with [] (p # ps) = False"
| "starts_with (c # cs) (p # ps) = (c = p \<and> starts_with cs ps)"

fun str_includes :: "string \<Rightarrow> string \<Rightarrow> bool" where
  "str_includes [] p = (p = [])"
| "str_includes (c # cs) p = (starts_with (c # cs) p \<or> str_includes cs p)"

text \<open>
  \<^verbatim>\<open>xs.slice(-n)\<close> for a positive \<open>n\<close>: the last \<open>n\<close> elements, all of them
  when there are fewer.
\<close>

definition slice_last :: "nat \<Rightarrow> 'a list \<Rightarrow> 'a list" where
  "slice_last n xs = drop (length xs - n) xs"

section \<open>Messages and conversation state\<close>

text \<open>
  \<^verbatim>\<open>supervisor/types.ts\<close>. A chat message is kept by its content alone: a string,
  or structured content, which carries the string that \<^verbatim>\<open>String(content)\<close> gives.
  Time stamps (\<^verbatim>\<open>Date.now()\<close>) are left out of \<open>AnnotatedMessage\<close>. The planner
  attaches its recommendation to the message it emits, hence the last field.

  The state declares \<^verbatim>\<open>dealData\<close>, \<^verbatim>\<open>pendingProduct\<close> and
  \<^verbatim>\<open>plannerRecommendation\<close> as \<^verbatim>\<open>any\<close>; they are modelled at the interfaces
  the code writes and reads them at (\<^verbatim>\<open>DealData\<close>, \<^verbatim>\<open>ProductInfo\<close>, the plan of the
  planner), an absent optional field being \<open>None\<close>. A field name can be declared once,
  so \<open>progressAgent\<close> is \<^verbatim>\<open>progress.agent\<close>, and the fields of the workflow
  detection, of the continuation analysis and of an agent's reply carry a prefix below.
\<close>

datatype AgentRole = RoleUser | RoleAssistant | RoleSystem

datatype msg_content = Text string | Parts string

fun content_string :: "msg_content \<Rightarrow> string" where
  "content_string (Text s) = s"
| "content_string (Parts s) = s"

record Progress =
  isProgressUpdate :: bool
  step :: string
  progressAgent :: string
  ephemeral :: "bool option"
  autoRemoveMs :: "nat option"

record PlanRecommendation =
  action :: string
  targetAgent :: "string option"
  task :: "string option"
  confidence :: "jsnum option"
  reasoning :: "string option"
  autoApplyIntent :: "bool option"

record AnnotatedMessage =
  message :: msg_content
  role :: AgentRole
  agent :: "string option"
  senderId :: "string option"
  progress :: "Progress option"
  planningRecommendation :: "PlanRecommendation option"

record ProductInfo =
  product :: string
  quantity :: "real option"

record DealData =
  applied :: "bool option"
  pending :: "bool option"
  "type" :: "string option"
  includesCheckout :: "bool option"
  workflowType :: "string option"
  history :: "jsval list option"
  originalIntent :: "string option"
  response :: "string option"

text \<open>
  The routing target: a node name, or the terminal sentinel \<^verbatim>\<open>END\<close> of the graph
  library.
\<close>

datatype target = END | Node string

text \<open>
  \<^verbatim>\<open>SupervisorState\<close> (state.ts). A node returns a fragment of the same shape; a key
  the fragment leaves out, or sets to \<^verbatim>\<open>undefined\<close>, is \<open>Undefined\<close>
  (\<open>JUndefined\<close>).
\<close>

record SupervisorState =
  messages :: "AnnotatedMessage list"
  "next" :: "target nullable"
  userId :: "string nullable"
  conversationId :: "string nullable"
  cartData :: jsval
  workflowContext :: "string nullable"
  dealData :: "DealData nullable"
  delegationDepth :: jsval
  pendingProduct :: "ProductInfo nullable"
  notificationData :: jsval
  plannerRecommendation :: "PlanRecommendation nullable"

definition empty_fragment :: SupervisorState where
  "empty_fragment =
     \<lparr> messages = [], next = Undefined, userId = Undefined, conversationId = Undefined,
       cartData = JUndefined, workflowContext = Undefined, dealData = Undefined,
       delegationDepth = JUndefined, pendingProduct = Undefined,
       notificationData = JUndefined, plannerRecommendation = Undefined \<rparr>"

section \<open>Reducers\<close>

text \<open>
  The reducers of state.ts that the properties below need, each a function of the old
  value \<open>x\<close> and the fragment's value \<open>y\<close>.
\<close>

definition isEphemeral :: "AnnotatedMessage \<Rightarrow> bool" where
  "isEphemeral msg =
     (case progress msg of
        None \<Rightarrow> False
      | Some p \<Rightarrow> isProgressUpdate p \<and> ephemeral p = Some True)"

definition isPermanent :: "AnnotatedMessage \<Rightarrow> bool" where
  "isPermanent msg =
     (case progress msg of
        None \<Rightarrow> True
      | Some p \<Rightarrow> \<not> isProgressUpdate p \<or> ephemeral p \<noteq> Some True)"

definition messages_reducer ::
  "AnnotatedMessage list \<Rightarrow> AnnotatedMessage list \<Rightarrow> AnnotatedMessage list" where
  "messages_reducer x y =
     (let combined = x @ y;
          ephemeral_msgs = filter isEphemeral combined;
          permanent = filter isPermanent combined;
          recentEphemeral = slice_last 5 ephemeral_msgs;
          recentPermanent = slice_last 10 permanent
      in recentPermanent @ recentEphemeral)"

definition next_reducer :: "target nullable \<Rightarrow> target nullable \<Rightarrow> target nullable" where
  "next_reducer x y = nullish_or y (nullish_or x (Val END))"

definition validContexts :: "string list" where
  "validContexts =
     [''awaiting_deal_confirmation'', ''add_to_cart_with_deals'',
      ''add_to_cart_with_checkout'', ''check_deals'', ''prepare_checkout'',
      ''process_checkout'', ''send_notification'']"

definition workflowContext_reducer ::
  "string nullable \<Rightarrow> string nullable \<Rightarrow> string nullable" where
  "workflowContext_reducer x y =
     (if truthy_str y \<and> (case y of Val c \<Rightarrow> c \<notin> set validContexts | _ \<Rightarrow> False) then x
      else nullish_or y x)"

definition or_else :: "'a option \<Rightarrow> 'a option \<Rightarrow> 'a option" where
  "or_else new old = (case new of Some v \<Rightarrow> Some v | None \<Rightarrow> old)"

definition history_or_empty :: "DealData \<Rightarrow> jsval list" where
  "history_or_empty d = (case history d of Some h \<Rightarrow> h | None \<Rightarrow> [])"

text \<open>\<^verbatim>\<open>{...x, ...y, history: [...(x.history || []), ...(y.history || [])]}\<close>\<close>

definition merge_deals :: "DealData \<Rightarrow> DealData \<Rightarrow> DealData" where
  "merge_deals x y =
     \<lparr> applied = or_else (applied y) (applied x),
       pending = or_else (pending y) (pending x),
       type = or_else (type y) (type x),
       includesCheckout = or_else (includesCheckout y) (includesCheckout x),
       workflowType = or_else (workflowType y) (workflowType x),
       history = Some (history_or_empty x @ history_or_empty y),
       originalIntent = or_else (originalIntent y) (originalIntent x),
       response = or_else (response y) (response x) \<rparr>"

fun dealData_reducer :: "DealData nullable \<Rightarrow> DealData nullable \<Rightarrow> DealData nullable" where
  "dealData_reducer x Null = Null"
| "dealData_reducer x Undefined = x"
| "dealData_reducer (Val dx) (Val dy) = Val (merge_deals dx dy)"
| "dealData_reducer x (Val dy) = Val dy"

fun pendingProduct_reducer ::
  "ProductInfo nullable \<Rightarrow> ProductInfo nullable \<Rightarrow> ProductInfo nullable" where
  "pendingProduct_reducer x Null = Null"
| "pendingProduct_reducer x Undefined = x"
| "pendingProduct_reducer x (Val p) = (if product p = [] then x else Val p)"

fun plannerRecommendation_reducer ::
  "PlanRecommendation nullable \<Rightarrow> PlanRecommendation nullable \<Rightarrow> PlanRecommendation nullable"
  where
  "plannerRecommendation_reducer x Null = Null"
| "plannerRecommendation_reducer x Undefined = x"
| "plannerRecommendation_reducer x (Val r) = Val r"

section \<open>Message helpers\<close>

text \<open>
  \<^verbatim>\<open>supervisor/message-utils.ts\<close>. The emoji that starts each progress text is left
  out of the strings.
\<close>

definition annotateMessage ::
  "msg_content \<Rightarrow> AgentRole \<Rightarrow> string option \<Rightarrow> AnnotatedMessage" where
  "annotateMessage msg r a =
     \<lparr> message = msg, role = r, agent = a, senderId = None, progress = None,
       planningRecommendation = None \<rparr>"

definition createProgressMessage :: "string \<Rightarrow> string \<Rightarrow> AnnotatedMessage" where
  "createProgressMessage content a =
     (let who = (if a \<noteq> [] then a else ''supervisor'')
      in \<lparr> message = Text content, role = RoleAssistant, agent = Some who, senderId = None,
           progress = Some \<lparr> isProgressUpdate = True, step = content, progressAgent = who,
                             ephemeral = Some True, autoRemoveMs = Some 5000 \<rparr>,
           planningRecommendation = None \<rparr>)"

definition getAgentProgressMessage :: "string \<Rightarrow> string nullable \<Rightarrow> AnnotatedMessage" where
  "getAgentProgressMessage agentName ctx =
     createProgressMessage
       (if agentName = ''catalog'' then ''Searching our catalog...''
        else if agentName = ''deals'' then ''Checking for deals...''
        else if agentName = ''cart_and_checkout'' then
          (if ctx = Val ''process_checkout'' \<or> ctx = Val ''prepare_checkout''
           then ''Processing checkout...'' else ''Managing your cart...'')
        else if agentName = ''payment'' then ''Managing payments...''
        else if agentName = ''notification_agent'' then ''Sending notifications...''
        else ''Delegating to '' @ agentName @ ''...'')
       ''supervisor''"

text \<open>
  The content of the last message of the state, as every node reads it:
  the empty string when there is no message.
\<close>

definition lastMessageContent :: "AnnotatedMessage list \<Rightarrow> string" where
  "lastMessageContent msgs = (if msgs = [] then [] else content_string (message (last msgs)))"

text \<open>The content of the last user message, else of the last message.\<close>

definition lastUserContent :: "AnnotatedMessage list \<Rightarrow> string \<Rightarrow> string" where
  "lastUserContent msgs fallback =
     (let userMessages = filter (\<lambda>m. role m = RoleUser) msgs
      in if userMessages = [] then fallback else content_string (message (last userMessages)))"

section \<open>Replies of the external agents\<close>

text \<open>
  A specialist node builds a prompt, invokes an external agent graph and interprets what
  comes back. The reply is an input of the model: its messages (by content; a missing
  list is the empty list) and its optional top-level \<^verbatim>\<open>content\<close>. The prompt reaches
  the returned fragment only through the reply, so it is modelled only where the node
  reads it again (the deals node).
\<close>

record AgentResult =
  reply_messages :: "msg_content list"
  reply_content :: "string option"

definition annotatedResponses :: "AgentResult \<Rightarrow> string \<Rightarrow> AnnotatedMessage list" where
  "annotatedResponses result a =
     map (\<lambda>m. annotateMessage m RoleAssistant (Some a)) (reply_messages result)"

definition js_of_string :: "string nullable \<Rightarrow> jsval" where
  "js_of_string s = (case s of Val v \<Rightarrow> JStr v | Null \<Rightarrow> JNull | Undefined \<Rightarrow> JUndefined)"

text \<open>\<^verbatim>\<open>{...dealData}\<close>: the fields of the deal record, none for null or undefined.\<close>

definition empty_deal :: DealData where
  "empty_deal =
     \<lparr> applied = None, pending = None, type = None, includesCheckout = None,
       workflowType = None, history = None, originalIntent = None, response = None \<rparr>"

definition spread_deal :: "DealData nullable \<Rightarrow> DealData" where
  "spread_deal d = (case d of Val v \<Rightarrow> v | Null \<Rightarrow> empty_deal | Undefined \<Rightarrow> empty_deal)"

section \<open>Catalog and payment nodes\<close>

definition catalogNode :: "SupervisorState \<Rightarrow> AgentResult \<Rightarrow> SupervisorState" where
  "catalogNode st result =
     empty_fragment
       \<lparr> messages := annotatedResponses result ''catalog'',
         userId := userId st,
         conversationId := conversationId st,
         workflowContext := workflowContext st,
         dealData := dealData st,
         pendingProduct := pendingProduct st,
         cartData := cartData st,
         plannerRecommendation := plannerRecommendation st,
         next := Val END \<rparr>"

definition paymentNode :: "SupervisorState \<Rightarrow> AgentResult \<Rightarrow> SupervisorState" where
  "paymentNode st result =
     empty_fragment
       \<lparr> messages := annotatedResponses result ''payment'',
         userId := userId st,
         conversationId := conversationId st,
         workflowContext := workflowContext st,
         dealData := dealData st,
         pendingProduct := pendingProduct st,
         cartData := cartData st,
         next := Val END \<rparr>"

section \<open>Notification node\<close>

text \<open>
  \<^verbatim>\<open>notificationAgent.ts\<close>. The delivery call either answers with \<^verbatim>\<open>ok\<close> and
  \<^verbatim>\<open>result?.status\<close>, or throws (\<open>None\<close>).
\<close>

record PushResult =
  ok :: bool
  status :: jsval

definition notificationAgent :: "SupervisorState \<Rightarrow> PushResult option \<Rightarrow> SupervisorState" where
  "notificationAgent st sent =
     (let reply = (\<lambda>txt.
            empty_fragment
              \<lparr> messages := [annotateMessage (Text txt) RoleAssistant (Some ''notification_agent'')],
                userId := userId st,
                conversationId := conversationId st,
                notificationData := JNull,
                next := Val END \<rparr>)
      in if \<not> truthy (notificationData st) then reply ''No notification data to process.''
         else case sent of
             None \<Rightarrow>
               reply ''There was an issue sending the notification, but your order was completed successfully!''
           | Some r \<Rightarrow>
               if ok r \<and> status r = JNum (Fin 1)
               then reply ''Notification sent successfully! You should receive a push notification shortly.''
               else reply ''Failed to send notification. Your order was completed successfully though!'')"

section \<open>Cart and checkout node\<close>

text \<open>
  \<^verbatim>\<open>safeParseJson\<close> (product-utils.ts): a direct parse, else a parse of the match of
  \<^verbatim>\<open>/\{[\s\S]*\}/\<close>, which runs from the first opening brace to the last closing
  brace after it; \<^verbatim>\<open>null\<close> otherwise.
\<close>

definition brace_match :: "string \<Rightarrow> string option" where
  "brace_match text =
     (let from_open = dropWhile (\<lambda>c. c \<noteq> CHR ''{'') text
      in if from_open = [] then None
         else let upto_close = rev (dropWhile (\<lambda>c. c \<noteq> CHR ''}'') (rev (tl from_open)))
              in if upto_close = [] then None else Some (CHR ''{'' # upto_close))"

definition safeParseJson :: "runtime \<Rightarrow> string \<Rightarrow> jsval" where
  "safeParseJson rt text =
     (if text = [] then JNull
      else case JSON_parse rt text of
          Some v \<Rightarrow> v
        | None \<Rightarrow>
            (case brace_match text of
               None \<Rightarrow> JNull
             | Some m \<Rightarrow> (case JSON_parse rt m of Some v \<Rightarrow> v | None \<Rightarrow> JNull)))"

text \<open>
  The text the node interprets: the content of the last reply message when that is a
  non-empty string, the empty string when it is structured content, and otherwise the
  reply's top-level content, if any.
\<close>

definition cart_responseContent :: "AgentResult \<Rightarrow> string" where
  "cart_responseContent result =
     (let top = (case reply_content result of Some s \<Rightarrow> s | None \<Rightarrow> [])
      in if reply_messages result = [] then top
         else case last (reply_messages result) of
             Text s \<Rightarrow> (if s \<noteq> [] then s else top)
           | Parts s \<Rightarrow> [])"

definition isCheckoutRequest :: "SupervisorState \<Rightarrow> bool" where
  "isCheckoutRequest st =
     (let actualUserContent =
            lastUserContent (messages st) (lastMessageContent (messages st));
          lower = toLowerCase actualUserContent
      in str_includes lower ''checkout'' \<or> str_includes lower ''buy''
         \<or> str_includes lower ''purchase''
         \<or> workflowContext st = Val ''process_checkout''
         \<or> workflowContext st = Val ''prepare_checkout'')"

definition productNotRecognized :: "string \<Rightarrow> bool" where
  "productNotRecognized contentStr =
     (let lower = toLowerCase contentStr
      in str_includes lower ''not recognizing the product''
         \<or> str_includes lower ''product not found''
         \<or> str_includes lower ''item not found'')"

definition checkoutSuccess :: "string \<Rightarrow> bool" where
  "checkoutSuccess contentStr =
     (let lower = toLowerCase contentStr
      in str_includes lower ''checkout completed'' \<or> str_includes lower ''order confirmed''
         \<or> str_includes lower ''payment successful'' \<or> str_includes lower ''order placed'')"

definition shouldAutoCheckout :: "SupervisorState \<Rightarrow> bool" where
  "shouldAutoCheckout st =
     ((case dealData st of Val d \<Rightarrow> includesCheckout d = Some True | _ \<Rightarrow> False)
      \<and> workflowContext st = Val ''add_to_cart_with_deals''
      \<and> \<not> isCheckoutRequest st)"

definition dquote :: string where
  "dquote = [CHR 0x22]"

definition product_name :: "ProductInfo nullable \<Rightarrow> string" where
  "product_name p = (case p of Val v \<Rightarrow> product v | _ \<Rightarrow> [])"

text \<open>
  \<open>now\<close> is the reading of the clock that goes into the notification payload.
\<close>

definition cartAndCheckoutNode ::
  "runtime \<Rightarrow> real \<Rightarrow> SupervisorState \<Rightarrow> AgentResult \<Rightarrow> SupervisorState" where
  "cartAndCheckoutNode rt now st result =
     (let responses = annotatedResponses result ''cart_and_checkout'';
          contentStr = cart_responseContent result;
          structured = safeParseJson rt contentStr;
          checkoutStatus = get_prop structured ''checkoutStatus'';
          base = empty_fragment
                   \<lparr> userId := userId st, conversationId := conversationId st,
                     cartData := cartData st,
                     plannerRecommendation := plannerRecommendation st \<rparr>
      in if productNotRecognized contentStr \<and> present (pendingProduct st) then
           base \<lparr> messages := responses @
                     [annotateMessage
                        (Text (''I couldn't find '' @ dquote @ product_name (pendingProduct st)
                               @ dquote @ '' in our catalog. Let me help you find the right product. You can try searching for similar items or browse our catalog.''))
                        RoleAssistant (Some ''cart_and_checkout'')],
                  workflowContext := Null, dealData := Null, pendingProduct := Null,
                  next := Val END \<rparr>
         else if truthy structured \<and> truthy checkoutStatus
                 \<and> checkoutStatus = JStr ''success'' then
           base \<lparr> messages := responses,
                  workflowContext := Val ''send_notification'',
                  dealData := dealData st,
                  pendingProduct := Null,
                  cartData := JNull,
                  notificationData :=
                    JObj [(''userId'', js_of_string (userId st)),
                          (''conversationId'', js_of_string (conversationId st)),
                          (''summary'', js_or (get_prop structured ''summary'') (JStr contentStr)),
                          (''cartData'', js_or (get_prop structured ''items'') (cartData st)),
                          (''orderId'', js_or (get_prop structured ''orderId'') JNull),
                          (''total'', js_or (get_prop structured ''total'') JNull),
                          (''timestamp'', JNum (Fin now))],
                  next := Val (Node ''supervisor'') \<rparr>
         else if truthy structured \<and> truthy checkoutStatus
                 \<and> checkoutStatus = JStr ''failure'' then
           base \<lparr> messages := responses @
                     [annotateMessage
                        (Text (''Checkout failed: '' @
                               js_toString rt (js_or (get_prop structured ''summary'')
                                                     (JStr ''Unknown reason''))))
                        RoleAssistant (Some ''cart_and_checkout'')],
                  workflowContext := Null, dealData := dealData st, pendingProduct := Null,
                  next := Val END \<rparr>
         else if checkoutSuccess contentStr then
           base \<lparr> messages := responses,
                  workflowContext := Val ''send_notification'',
                  dealData := dealData st,
                  pendingProduct := Null,
                  cartData := JNull,
                  notificationData :=
                    JObj [(''userId'', js_of_string (userId st)),
                          (''conversationId'', js_of_string (conversationId st)),
                          (''summary'', JStr contentStr),
                          (''cartData'', cartData st),
                          (''orderId'', JNull),
                          (''timestamp'', JNum (Fin now))],
                  next := Val (Node ''supervisor'') \<rparr>
         else if shouldAutoCheckout st then
           base \<lparr> messages := responses @
                     [createProgressMessage ''Proceeding to checkout automatically...''
                        ''supervisor''],
                  workflowContext := Val ''add_to_cart_with_checkout'',
                  dealData := Val ((spread_deal (dealData st)) \<lparr> includesCheckout := Some False \<rparr>),
                  pendingProduct := Null,
                  next := Val (Node ''supervisor'') \<rparr>
         else
           base \<lparr> messages := responses,
                  workflowContext := workflowContext st,
                  dealData := dealData st,
                  pendingProduct := pendingProduct st,
                  next := Val END \<rparr>)"

section \<open>Deals node\<close>

text \<open>
  Product extraction asks the language model; \<open>extract\<close> gives its answer for a
  message text, \<open>None\<close> when it answers \<^verbatim>\<open>null\<close> or throws (the node catches that
  and goes on). The node tries the last two user messages, the most recent first, and
  takes the first answer with a non-empty product.
\<close>

fun extract_first :: "(string \<Rightarrow> ProductInfo option) \<Rightarrow> string list \<Rightarrow> ProductInfo option" where
  "extract_first extract [] = None"
| "extract_first extract (c # cs) =
     (case extract c of
        Some p \<Rightarrow> (if product p \<noteq> [] then Some p else extract_first extract cs)
      | None \<Rightarrow> extract_first extract cs)"

definition effectivePending ::
  "(string \<Rightarrow> ProductInfo option) \<Rightarrow> SupervisorState \<Rightarrow> ProductInfo option" where
  "effectivePending extract st =
     (case pendingProduct st of
        Val p \<Rightarrow> Some p
      | _ \<Rightarrow>
          (let userMessages = filter (\<lambda>m. role m = RoleUser) (messages st);
               recentUserMessages = slice_last 2 userMessages
           in extract_first extract
                (map (\<lambda>m. content_string (message m)) (rev recentUserMessages))))"

definition quantity_note :: "runtime \<Rightarrow> ProductInfo \<Rightarrow> string" where
  "quantity_note rt p =
     (case quantity p of
        Some q \<Rightarrow> (if q \<noteq> 0 then '' (quantity: '' @ show_number rt q @ '')'' else [])
      | None \<Rightarrow> [])"

text \<open>The message sent to the deals agent, rewritten in the \<^verbatim>\<open>check_deals\<close> context.\<close>

definition deals_messageToAgent :: "runtime \<Rightarrow> SupervisorState \<Rightarrow> ProductInfo \<Rightarrow> string" where
  "deals_messageToAgent rt st p =
     (let messageToAgent = lastMessageContent (messages st);
          originalMessage = toLowerCase messageToAgent;
          isComplexWorkflow =
            ((str_includes originalMessage ''check'' \<and> str_includes originalMessage ''deal''
              \<and> str_includes originalMessage ''add'')
             \<or> (str_includes originalMessage ''if'' \<and> str_includes originalMessage ''deal'')
             \<or> (str_includes originalMessage ''deal'' \<and> str_includes originalMessage ''cart''))
      in if workflowContext st = Val ''check_deals'' then
           (if isComplexWorkflow then
              ''Complex workflow request: '' @ dquote @ messageToAgent @ dquote
              @ ''. User wants to check for deals on '' @ product p @ quantity_note rt p
              @ '' and conditionally add to cart if deals are available. Please check for deals and present options clearly.''
            else
              ''User wants to add to cart: '' @ dquote @ messageToAgent @ dquote
              @ ''. Check for deals on '' @ product p @ quantity_note rt p)
         else messageToAgent)"

definition deals_isComplexWorkflow :: "string \<Rightarrow> bool" where
  "deals_isComplexWorkflow messageToAgent =
     (let modifiedMessageLower = toLowerCase messageToAgent
      in (str_includes modifiedMessageLower ''check'' \<and> str_includes modifiedMessageLower ''deal''
          \<and> str_includes modifiedMessageLower ''add'')
         \<or> (str_includes modifiedMessageLower ''if'' \<and> str_includes modifiedMessageLower ''deal'')
         \<or> (str_includes modifiedMessageLower ''deal'' \<and> str_includes modifiedMessageLower ''cart'')
         \<or> str_includes modifiedMessageLower ''complex workflow request'')"

definition deals_responseContent :: "AgentResult \<Rightarrow> string" where
  "deals_responseContent result =
     (case reply_content result of
        Some s \<Rightarrow> (if s \<noteq> [] then s else ''No deals found'')
      | None \<Rightarrow> ''No deals found'')"

definition requiresConfirmation :: "string \<Rightarrow> bool" where
  "requiresConfirmation responseContent =
     (let lower = toLowerCase responseContent
      in str_includes lower ''would you like'' \<or> str_includes lower ''apply this deal''
         \<or> str_includes lower ''interested in'' \<or> str_includes lower ''take advantage'')"

definition noDealsAvailable :: "string \<Rightarrow> bool" where
  "noDealsAvailable responseContent =
     (let lower = toLowerCase responseContent
      in str_includes lower ''no current deals'' \<or> str_includes lower ''no deals available''
         \<or> str_includes lower ''expired''
         \<or> str_includes lower ''unfortunately, there are no'')"

definition plannerAutoApply :: "SupervisorState \<Rightarrow> bool" where
  "plannerAutoApply st =
     (case plannerRecommendation st of Val r \<Rightarrow> autoApplyIntent r = Some True | _ \<Rightarrow> False)"

text \<open>
  The node returns a fragment on every branch that has a \<^verbatim>\<open>return\<close>; where the
  function body ends without one the result is \<^verbatim>\<open>undefined\<close>, here \<open>None\<close>.
\<close>

definition dealsNode ::
  "runtime \<Rightarrow> (string \<Rightarrow> ProductInfo option) \<Rightarrow> SupervisorState \<Rightarrow> AgentResult
     \<Rightarrow> SupervisorState option" where
  "dealsNode rt extract st result =
     (let base = empty_fragment
                   \<lparr> userId := userId st, conversationId := conversationId st,
                     cartData := cartData st,
                     plannerRecommendation := plannerRecommendation st \<rparr>
      in case effectivePending extract st of
          None \<Rightarrow>
            Some (base
              \<lparr> messages :=
                  [annotateMessage
                     (Text (''I need to know which product you're interested in to check for deals. Could you please specify the product name? For example, 'Check deals on apples' or 'Add 8 apples to my cart'.''))
                     RoleAssistant (Some ''deals'')],
                workflowContext := Null, dealData := dealData st, pendingProduct := Null,
                next := Val END \<rparr>)
        | Some p \<Rightarrow>
            (let messageToAgent = deals_messageToAgent rt st p;
                 responseMessages = annotatedResponses result ''deals'';
                 responseContent = deals_responseContent result;
                 isComplexWorkflow = deals_isComplexWorkflow messageToAgent;
                 autoApply = plannerAutoApply st;
                 confirm = requiresConfirmation responseContent
             in if confirm
                   \<or> (isComplexWorkflow
                       \<and> \<not> str_includes (toLowerCase responseContent) ''no current deals''
                       \<and> \<not> str_includes (toLowerCase responseContent) ''no deals available'')
                then
                  (if autoApply then
                     Some (base
                       \<lparr> messages := responseMessages @
                           [createProgressMessage ''Adding items to your cart...'' ''supervisor''],
                         workflowContext := Val ''add_to_cart_with_deals'',
                         dealData := Val ((spread_deal (dealData st))
                                       \<lparr> applied := Some True, response := Some responseContent,
                                         type := Some ''product_deal'',
                                         originalIntent := Some messageToAgent \<rparr>),
                         pendingProduct := Val p,
                         next := Val (Node ''supervisor'') \<rparr>)
                   else if confirm then
                     Some (base
                       \<lparr> messages := responseMessages,
                         workflowContext := Val ''awaiting_deal_confirmation'',
                         dealData := Val ((spread_deal (dealData st))
                                       \<lparr> pending := Some True, response := Some responseContent,
                                         type := Some ''product_deal'' \<rparr>),
                         pendingProduct := Val p,
                         next := Val END \<rparr>)
                   else
                     Some (base
                       \<lparr> messages := responseMessages,
                         workflowContext := Val ''add_to_cart_with_deals'',
                         dealData := Val ((spread_deal (dealData st))
                                       \<lparr> applied := Some True, response := Some responseContent,
                                         type := Some ''product_deal'' \<rparr>),
                         pendingProduct := Val p,
                         next := Val (Node ''cart_and_checkout'') \<rparr>))
                else if noDealsAvailable responseContent then
                  Some (base
                    \<lparr> messages := responseMessages,
                      workflowContext := Null,
                      dealData := Val ((spread_deal (dealData st))
                                    \<lparr> applied := Some False, response := Some responseContent,
                                      type := Some ''no_deals_found'' \<rparr>),
                      pendingProduct := Null,
                      next := Val END \<rparr>)
                else None))"

section \<open>Supervisor\<close>

text \<open>\<^verbatim>\<open>detectComplexWorkflow\<close> (workflow-detection.ts).\<close>

record WorkflowDetectionResult =
  isComplex :: bool
  detectedType :: "string option"
  reason :: "string option"
  detectedCheckout :: bool

definition detectComplexWorkflow :: "string \<Rightarrow> WorkflowDetectionResult" where
  "detectComplexWorkflow messageContent =
     (let lowerContent = toLowerCase messageContent;
          has = str_includes lowerContent;
          hasCheckout =
            (has ''checkout'' \<or> has ''check out'' \<or> has ''place order''
             \<or> has ''complete order''
             \<or> (has ''then'' \<and> (has ''continue'' \<or> has ''proceed''))
             \<or> (has ''just'' \<and> has ''continue''));
          dealsAndCartPattern =
            ((has ''check'' \<or> has ''find'' \<or> has ''look'')
             \<and> (has ''deal'' \<or> has ''promotion'' \<or> has ''discount'' \<or> has ''sale'')
             \<and> (has ''add'' \<and> has ''cart''));
          conditionalPattern =
            (has ''if''
             \<and> (has ''deal'' \<or> has ''discount'' \<or> has ''sale'' \<or> has ''promotion'')
             \<and> (has ''add'' \<or> has ''buy'' \<or> has ''purchase''));
          multiActionPattern =
            (has '' and ''
             \<and> ((has ''deal'' \<or> has ''promotion'' \<or> has ''discount'')
                  \<and> (has ''add'' \<or> has ''cart'')))
      in if dealsAndCartPattern then
           \<lparr> isComplex = True,
             detectedType = Some (if hasCheckout then ''deals_to_cart_to_checkout''
                                  else ''deals_to_cart''),
             reason = Some (if hasCheckout
               then ''User wants to check deals, add to cart, and proceed to checkout automatically''
               else ''User wants to check deals first, then add to cart based on availability''),
             detectedCheckout = hasCheckout \<rparr>
         else if conditionalPattern then
           \<lparr> isComplex = True,
             detectedType = Some (if hasCheckout then ''conditional_purchase_with_checkout''
                                  else ''conditional_purchase''),
             reason = Some (if hasCheckout
               then ''User wants conditional action based on deal availability with automatic checkout''
               else ''User wants conditional action based on deal availability''),
             detectedCheckout = hasCheckout \<rparr>
         else if multiActionPattern then
           \<lparr> isComplex = True,
             detectedType = Some (if hasCheckout then ''multi_step_purchase_with_checkout''
                                  else ''multi_step_purchase''),
             reason = Some (if hasCheckout
               then ''User wants multiple coordinated actions (deals check + cart addition + checkout)''
               else ''User wants multiple coordinated actions (deals check + cart addition)''),
             detectedCheckout = hasCheckout \<rparr>
         else \<lparr> isComplex = False, detectedType = None, reason = None,
                detectedCheckout = False \<rparr>)"

text \<open>
  The affirmative test of the deal-confirmation check: some pattern and some
  whitespace-separated word of the lower-cased, trimmed message contain one another.
\<close>

definition affirmativePatterns :: "string list" where
  "affirmativePatterns =
     [''yes'', ''sure'', ''ok'', ''okay'', ''apply'', ''take'',
      ''sounds'', ''great'', ''perfect'', ''good'', ''deal'', ''go'']"

definition hasAffirmative :: "string \<Rightarrow> bool" where
  "hasAffirmative messageContent =
     (let messageWords = split_ws (trim (toLowerCase messageContent))
      in list_ex (\<lambda>pattern.
           list_ex (\<lambda>word. str_includes word pattern \<or> str_includes pattern word) messageWords)
         affirmativePatterns)"

text \<open>
  What the language model answers during one run of the supervisor: the continuation
  analysis (its detector catches its own errors), the one-word routing answer
  (\<open>None\<close> when that call throws, which the supervisor does not catch), and the
  product extracted from the message (\<open>None\<close> for \<^verbatim>\<open>null\<close>).
  \<^verbatim>\<open>MIN_CONTINUATION_CONFIDENCE\<close> comes from a constants module and is a parameter.
\<close>

record ContinuationAnalysis =
  isContinuation :: bool
  continuationType :: "string option"
  continuationTarget :: "string option"
  continuationConfidence :: real

record Oracles =
  continuationAnalysis :: ContinuationAnalysis
  routingAnswer :: "string option"
  extractedProduct :: "ProductInfo option"

datatype js_error = LlmError | TypeError

text \<open>The progress message that opens a run after a specialist has just answered.\<close>

definition completionMessage :: "SupervisorState \<Rightarrow> string \<Rightarrow> AnnotatedMessage" where
  "completionMessage st lastAgent =
     createProgressMessage
       (if lastAgent = ''deals'' then
          (if (case dealData st of Val d \<Rightarrow> applied d = Some True | _ \<Rightarrow> False)
           then ''Found deals, proceeding...''
           else if (case dealData st of Val d \<Rightarrow> pending d = Some True | _ \<Rightarrow> False)
           then ''Found deals, awaiting confirmation...''
           else ''Deal search completed...'')
        else if lastAgent = ''cart_and_checkout'' then
          (if workflowContext st = Val ''process_checkout''
              \<or> workflowContext st = Val ''prepare_checkout''
           then ''Checkout completed...'' else ''Added items to cart...'')
        else if lastAgent = ''catalog'' then ''Catalog search completed...''
        else if lastAgent = ''payment'' then ''Payment processing completed...''
        else if lastAgent = ''notification_agent'' then ''Notifications sent...''
        else ''Agent task completed...'')
       ''supervisor''"

definition initialMessages :: "SupervisorState \<Rightarrow> AnnotatedMessage list" where
  "initialMessages st =
     (let completed =
            (if messages st = [] then None
             else case agent (last (messages st)) of
                 None \<Rightarrow> None
               | Some a \<Rightarrow> (if a \<noteq> [] \<and> a \<noteq> ''supervisor'' \<and> a \<noteq> ''user''
                            then Some a else None))
      in case completed of
          Some a \<Rightarrow> [completionMessage st a,
                     createProgressMessage ''Evaluating next steps...'' ''supervisor'']
        | None \<Rightarrow> [createProgressMessage ''Evaluating request...'' ''supervisor''])"

definition lastAnnotated :: "SupervisorState \<Rightarrow> AnnotatedMessage list" where
  "lastAnnotated st = (if messages st = [] then [] else [last (messages st)])"

text \<open>
  The routing function. Its rules are tried in the order of the source; the first that
  applies returns. Where the source lists \<^verbatim>\<open>lastAnnotated\<close> after the progress
  messages, the model lists the last message of the state, if there is one.
\<close>

definition high_confidence :: "PlanRecommendation \<Rightarrow> bool" where
  "high_confidence r = (case confidence r of Some (Fin c) \<Rightarrow> c \<noteq> 0 \<and> c > 0.7 | _ \<Rightarrow> False)"

definition some_nonempty :: "string option \<Rightarrow> bool" where
  "some_nonempty s = (case s of Some v \<Rightarrow> v \<noteq> [] | None \<Rightarrow> False)"

definition or_text :: "string option \<Rightarrow> string \<Rightarrow> string" where
  "or_text s fallback = (case s of Some v \<Rightarrow> (if v \<noteq> [] then v else fallback) | None \<Rightarrow> fallback)"

definition delegate_rule :: "SupervisorState \<Rightarrow> PlanRecommendation \<Rightarrow> string \<Rightarrow> SupervisorState option"
  where
  "delegate_rule st r target =
     (let complexWorkflow = detectComplexWorkflow (lastMessageContent (messages st));
          validAgents = [''catalog'', ''cart_and_checkout'', ''deals'', ''payment'',
                         ''notification_agent''];
          finalTargetAgent =
            (if workflowContext st = Val ''add_to_cart_with_deals''
                \<and> present (pendingProduct st) then ''cart_and_checkout''
             else if workflowContext st = Val ''awaiting_deal_confirmation''
                \<and> present (pendingProduct st) then target
             else if isComplex complexWorkflow \<and> target = ''supervisor'' then ''deals''
             else if target \<in> set validAgents \<and> high_confidence r then target
             else target)
      in if finalTargetAgent \<noteq> target \<or> high_confidence r then
           Some (empty_fragment
             \<lparr> next := Val (Node finalTargetAgent),
               userId := userId st, conversationId := conversationId st,
               workflowContext := workflowContext st, dealData := dealData st,
               pendingProduct := pendingProduct st, cartData := cartData st,
               messages := initialMessages st
                 @ [getAgentProgressMessage finalTargetAgent (workflowContext st)]
                 @ lastAnnotated st \<rparr>)
         else None)"

definition planner_rule :: "SupervisorState \<Rightarrow> SupervisorState option" where
  "planner_rule st =
     (case plannerRecommendation st of
        Val r \<Rightarrow>
          (if action r = ''direct_response'' then
             Some (empty_fragment
               \<lparr> messages := initialMessages st @
                   [annotateMessage
                      (Text (or_text (task r)
                               (or_text (reasoning r) ''Hello! How can I help you today?'')))
                      RoleAssistant (Some ''supervisor'')],
                 userId := userId st, conversationId := conversationId st,
                 workflowContext := workflowContext st, dealData := dealData st,
                 pendingProduct := pendingProduct st, cartData := cartData st,
                 next := Val END \<rparr>)
           else if action r = ''delegate'' then
             (case targetAgent r of
                Some target \<Rightarrow> (if target \<noteq> [] then delegate_rule st r target else None)
              | None \<Rightarrow> None)
           else None)
      | _ \<Rightarrow> None)"

definition continuation_rule ::
  "real \<Rightarrow> ContinuationAnalysis \<Rightarrow> SupervisorState \<Rightarrow> SupervisorState option" where
  "continuation_rule MIN_CONTINUATION_CONFIDENCE ca st =
     (if isContinuation ca \<and> continuationConfidence ca > MIN_CONTINUATION_CONFIDENCE then
        (if continuationType ca = Some ''deal_confirmation'' then
           Some (empty_fragment
             \<lparr> next := Val (Node ''cart_and_checkout''),
               userId := userId st, conversationId := conversationId st,
               workflowContext := Val ''add_to_cart_with_deals'',
               dealData := dealData st, pendingProduct := pendingProduct st,
               messages := initialMessages st
                 @ [getAgentProgressMessage ''cart_and_checkout'' (Val ''add_to_cart_with_deals'')]
                 @ lastAnnotated st \<rparr>)
         else if continuationType ca = Some ''checkout_flow'' then
           (let checkoutContext =
                  (if truthy (cartData st) then ''process_checkout'' else ''prepare_checkout'')
            in Some (empty_fragment
                 \<lparr> next := Val (Node ''cart_and_checkout''),
                   userId := userId st, conversationId := conversationId st,
                   workflowContext := Val checkoutContext,
                   cartData := cartData st,
                   messages := initialMessages st
                     @ [getAgentProgressMessage ''cart_and_checkout'' (Val checkoutContext)]
                     @ lastAnnotated st \<rparr>))
         else if continuationType ca = Some ''add_to_cart'' then
           (let target = (if present (pendingProduct st) then ''cart_and_checkout'' else ''deals'');
                ctx = (if present (pendingProduct st) then ''add_to_cart_with_deals''
                       else ''check_deals'')
            in Some (empty_fragment
                 \<lparr> next := Val (Node target),
                   userId := userId st, conversationId := conversationId st,
                   workflowContext := Val ctx,
                   dealData := dealData st, pendingProduct := pendingProduct st,
                   messages := initialMessages st
                     @ [getAgentProgressMessage target (Val ctx)]
                     @ lastAnnotated st \<rparr>))
         else None)
      else None)"

definition general_routing :: "Oracles \<Rightarrow> SupervisorState \<Rightarrow> string \<Rightarrow> SupervisorState" where
  "general_routing orc st answer =
     (let messageContent = lastMessageContent (messages st);
          complexWorkflow = detectComplexWorkflow messageContent;
          nextAgent = toLowerCase (trim answer);
          validAgents = [''catalog'', ''cart_and_checkout'', ''payment'', ''deals''];
          selectedAgent = (if nextAgent \<in> set validAgents then nextAgent else ''catalog'');
          extracted =
            (if (selectedAgent = ''deals'' \<and> \<not> present (pendingProduct st))
                \<or> isComplex complexWorkflow
             then (case extractedProduct orc of Some p \<Rightarrow> Val p | None \<Rightarrow> Null)
             else pendingProduct st);
          setsContext = (isComplex complexWorkflow \<and> selectedAgent = ''deals''
                         \<and> present extracted);
          finalWorkflowContext = (if setsContext then Val ''check_deals'' else workflowContext st);
          finalDealData =
            (if setsContext \<and> detectedCheckout complexWorkflow
             then Val ((spread_deal (dealData st))
                        \<lparr> includesCheckout := Some True,
                          workflowType := detectedType complexWorkflow \<rparr>)
             else dealData st)
      in empty_fragment
           \<lparr> next := Val (Node selectedAgent),
             userId := userId st, conversationId := conversationId st,
             workflowContext := finalWorkflowContext,
             pendingProduct := (if present extracted then extracted else pendingProduct st),
             dealData := finalDealData,
             cartData := cartData st,
             plannerRecommendation := plannerRecommendation st,
             messages := initialMessages st
               @ [getAgentProgressMessage selectedAgent finalWorkflowContext]
               @ lastAnnotated st \<rparr>)"

definition supervisor ::
  "runtime \<Rightarrow> real \<Rightarrow> Oracles \<Rightarrow> SupervisorState \<Rightarrow> js_error + SupervisorState" where
  "supervisor rt MIN_CONTINUATION_CONFIDENCE orc st =
     (let messageContent = lastMessageContent (messages st)
      in if workflowContext st = Val ''send_notification'' then
           (let orderId = js_or (get_prop (notificationData st) ''orderId'') (JStr ''N/A'')
            in Inr (empty_fragment
                 \<lparr> next := Val (Node ''notification_agent''),
                   userId := userId st, conversationId := conversationId st,
                   workflowContext := Val ''send_notification'',
                   plannerRecommendation := plannerRecommendation st,
                   messages := initialMessages st
                     @ [annotateMessage
                          (Text (''Checkout completed successfully! Your order ID is: ''
                                 @ js_toString rt orderId))
                          RoleAssistant (Some ''supervisor''),
                        getAgentProgressMessage ''notification_agent'' (Val ''send_notification'')]
                     @ lastAnnotated st \<rparr>))
         else if workflowContext st = Val ''awaiting_deal_confirmation''
                 \<and> present (pendingProduct st) then
           (if hasAffirmative messageContent then
              Inr (empty_fragment
                \<lparr> next := Val (Node ''cart_and_checkout''),
                  userId := userId st, conversationId := conversationId st,
                  workflowContext := Val ''add_to_cart_with_deals'',
                  dealData := dealData st, pendingProduct := pendingProduct st,
                  cartData := cartData st,
                  messages := initialMessages st
                    @ [getAgentProgressMessage ''cart_and_checkout'' (Val ''add_to_cart_with_deals'')]
                    @ lastAnnotated st \<rparr>)
            else
              Inr (empty_fragment
                \<lparr> messages := initialMessages st
                    @ [annotateMessage
                         (Text ''No problem! Let me know if you'd like to explore other products or if there's anything else I can help you with.'')
                         RoleAssistant (Some ''supervisor'')],
                  userId := userId st, conversationId := conversationId st,
                  workflowContext := Undefined,
                  dealData := Undefined,
                  pendingProduct := Undefined,
                  cartData := cartData st,
                  next := Val END \<rparr>))
         else case planner_rule st of
             Some f \<Rightarrow> Inr f
           | None \<Rightarrow>
              (case continuation_rule MIN_CONTINUATION_CONFIDENCE (continuationAnalysis orc) st of
                 Some f \<Rightarrow> Inr f
               | None \<Rightarrow>
                  if workflowContext st = Val ''add_to_cart_with_deals''
                     \<and> present (pendingProduct st) then
                    Inr (empty_fragment
                      \<lparr> next := Val (Node ''cart_and_checkout''),
                        userId := userId st, conversationId := conversationId st,
                        workflowContext := Val ''add_to_cart_with_deals'',
                        dealData := dealData st, pendingProduct := pendingProduct st,
                        plannerRecommendation := plannerRecommendation st,
                        messages := initialMessages st
                          @ [getAgentProgressMessage ''cart_and_checkout''
                               (Val ''add_to_cart_with_deals'')]
                          @ lastAnnotated st \<rparr>)
                  else if workflowContext st = Val ''add_to_cart_with_checkout'' then
                    Inr (empty_fragment
                      \<lparr> next := Val (Node ''cart_and_checkout''),
                        userId := userId st, conversationId := conversationId st,
                        workflowContext := Val ''process_checkout'',
                        dealData := dealData st, pendingProduct := Null,
                        cartData := cartData st,
                        plannerRecommendation := plannerRecommendation st,
                        messages := initialMessages st
                          @ [getAgentProgressMessage ''cart_and_checkout'' (Val ''process_checkout'')]
                          @ lastAnnotated st \<rparr>)
                  else case routingAnswer orc of
                      None \<Rightarrow> Inl LlmError
                    | Some answer \<Rightarrow> Inr (general_routing orc st answer)))"

section \<open>Planner\<close>

text \<open>
  The planner node (planner.ts). The state holds annotated messages, so the node's
  conversion of raw client messages does not apply. The look-up in the planner cache is
  an input (\<open>None\<close> for a miss); the store into the cache is not modelled. The model
  call either throws an error, given by its message, or answers with a response object.
\<close>

fun set_prop :: "(string \<times> jsval) list \<Rightarrow> string \<Rightarrow> jsval \<Rightarrow> (string \<times> jsval) list" where
  "set_prop [] k v = [(k, v)]"
| "set_prop ((k', v') # kvs) k v =
     (if k' = k then (k, v) # kvs else (k', v') # set_prop kvs k v)"

definition plan_json :: "PlanRecommendation \<Rightarrow> jsval" where
  "plan_json r =
     JObj ([(''action'', JStr (action r))]
           @ (case task r of Some t \<Rightarrow> [(''task'', JStr t)] | None \<Rightarrow> [])
           @ (case confidence r of Some c \<Rightarrow> [(''confidence'', JNum c)] | None \<Rightarrow> [])
           @ (case reasoning r of Some t \<Rightarrow> [(''reasoning'', JStr t)] | None \<Rightarrow> [])
           @ (case autoApplyIntent r of Some b \<Rightarrow> [(''autoApplyIntent'', JBool b)] | None \<Rightarrow> [])
           @ (case targetAgent r of Some t \<Rightarrow> [(''targetAgent'', JStr t)] | None \<Rightarrow> []))"

definition planner_message :: "runtime \<Rightarrow> PlanRecommendation \<Rightarrow> AnnotatedMessage" where
  "planner_message rt plan =
     \<lparr> message = Text (JSON_stringify rt (plan_json plan)), role = RoleAssistant,
       agent = Some ''planner'', senderId = None, progress = None,
       planningRecommendation = Some plan \<rparr>"

definition fallbackPlan :: "string \<Rightarrow> PlanRecommendation" where
  "fallbackPlan why =
     \<lparr> action = ''delegate'', targetAgent = None, task = None, confidence = Some (Fin 0.5),
       reasoning = Some why, autoApplyIntent = None \<rparr>"

text \<open>The text of the model's answer, and the part of it handed to \<^verbatim>\<open>JSON.parse\<close>.\<close>

definition planner_text :: "runtime \<Rightarrow> jsval \<Rightarrow> string" where
  "planner_text rt resp =
     (let textContent = (case get_prop resp ''content'' of JStr s \<Rightarrow> s | _ \<Rightarrow> [])
      in if textContent \<noteq> [] then textContent
         else JSON_stringify rt (if truthy resp then resp else JStr []))"

definition planner_jsonText :: "string \<Rightarrow> string" where
  "planner_jsonText text =
     (let from_open = dropWhile (\<lambda>c. c \<noteq> CHR ''{'') text
      in if from_open = [] then text else from_open)"

definition planner_parse :: "runtime \<Rightarrow> string \<Rightarrow> jsval" where
  "planner_parse rt text =
     (let unparsed = (\<lambda>why.
            JObj [(''action'', JStr ''delegate''), (''task'', JStr (take 1000 text)),
                  (''confidence'', JNum (Fin 0.5)), (''reasoning'', JStr why)])
      in case JSON_parse rt (planner_jsonText text) of
          None \<Rightarrow> unparsed ''Could not parse JSON plan from planner LLM; delegating for safety.''
        | Some plan \<Rightarrow>
            (if truthy plan then plan
             else unparsed ''Planner returned no plan; delegating for safety.''))"

text \<open>
  The three assignments that follow the parse. They write properties of the parsed
  value: an object takes them, an array takes them beside its elements (none of which
  the node reads), and a primitive value makes the assignment throw, the module being
  in strict mode.
\<close>

definition plan_defaults :: "runtime \<Rightarrow> jsval \<Rightarrow> js_error + jsval" where
  "plan_defaults rt plan =
     (let assign = (\<lambda>kvs.
            (let kvs1 = set_prop kvs ''confidence''
                          (JNum (clamp01 (toNumber rt
                             (js_or (get_prop (JObj kvs) ''confidence'') (JNum (Fin 0.5))))));
                 kvs2 = set_prop kvs1 ''action''
                          (js_or (get_prop (JObj kvs1) ''action'') (JStr ''delegate''));
                 kvs3 = set_prop kvs2 ''reasoning''
                          (js_or (get_prop (JObj kvs2) ''reasoning'') (JStr []))
             in JObj kvs3))
      in case plan of
          JObj kvs \<Rightarrow> Inr (assign kvs)
        | JArr xs \<Rightarrow> Inr (assign [])
        | _ \<Rightarrow> Inl TypeError)"

text \<open>
  \<^verbatim>\<open>validateAndNormalizePlan\<close>. The planner calls it on the object that
  \<open>plan_defaults\<close> leaves.
\<close>

definition invalid_action_plan :: "runtime \<Rightarrow> jsval \<Rightarrow> PlanRecommendation" where
  "invalid_action_plan rt input =
     \<lparr> action = ''delegate'', targetAgent = None,
       task = Some
         (let given = (if truthy (get_prop input ''task'')
                       then take 1000 (js_toString rt (get_prop input ''task'')) else [])
          in if given \<noteq> [] then given else take 1000 (JSON_stringify rt input)),
       confidence = Some (Fin 0.5),
       reasoning = Some ''Planner returned invalid or missing action'',
       autoApplyIntent = None \<rparr>"

definition normalized_plan :: "runtime \<Rightarrow> jsval \<Rightarrow> string \<Rightarrow> bool \<times> PlanRecommendation" where
  "normalized_plan rt input rawAction =
     (let task_text = (case get_prop input ''task'' of
                         JStr t \<Rightarrow> Some t
                       | v \<Rightarrow> (if truthy v then Some (String_of rt v) else None));
          conf = (case get_prop input ''confidence'' of JNum n \<Rightarrow> clamp01 n | _ \<Rightarrow> Fin 0.5);
          reasoning_text = (case get_prop input ''reasoning'' of
                              JStr t \<Rightarrow> t
                            | v \<Rightarrow> (if truthy v then String_of rt v else []));
          normalizedPlan =
            \<lparr> action = rawAction, targetAgent = None, task = task_text,
              confidence = Some conf, reasoning = Some reasoning_text,
              autoApplyIntent = Some (case get_prop input ''autoApplyIntent'' of
                                        JBool b \<Rightarrow> b | _ \<Rightarrow> False) \<rparr>
      in if rawAction = ''direct_response'' \<and> \<not> some_nonempty task_text
            \<and> reasoning_text = [] then
           (False,
            normalizedPlan
              \<lparr> action := ''delegate'',
                confidence := Some (case conf of Fin c \<Rightarrow> Fin (min c 0.6) | NaN \<Rightarrow> NaN),
                reasoning := Some ''Converted to delegate because direct_response lacked content'' \<rparr>)
         else if (case conf of Fin c \<Rightarrow> c < 0.7 | NaN \<Rightarrow> False)
                 \<and> rawAction = ''direct_response'' then
           (True,
            normalizedPlan
              \<lparr> action := ''delegate'',
                reasoning := Some (''Low confidence classification - delegating for safety. Original: ''
                                   @ reasoning_text) \<rparr>)
         else (True, normalizedPlan))"

definition validateAndNormalizePlan :: "runtime \<Rightarrow> jsval \<Rightarrow> bool \<times> PlanRecommendation" where
  "validateAndNormalizePlan rt input =
     (let allowedActions = [''direct_response'', ''delegate''];
          is_object = (case input of JObj kvs \<Rightarrow> True | JArr xs \<Rightarrow> True | _ \<Rightarrow> False)
      in if \<not> truthy input \<or> \<not> is_object then
           (False,
            \<lparr> action = ''delegate'', targetAgent = None,
              task = Some (case input of JStr s \<Rightarrow> take 1000 s
                                      | _ \<Rightarrow> take 1000 (JSON_stringify rt input)),
              confidence = Some (Fin 0.5),
              reasoning = Some ''Invalid planner output format'', autoApplyIntent = None \<rparr>)
         else case get_prop input ''action'' of
             JStr a \<Rightarrow>
               (let rawAction = toLowerCase a
                in if rawAction = [] \<or> rawAction \<notin> set allowedActions
                   then (False, invalid_action_plan rt input)
                   else normalized_plan rt input rawAction)
           | _ \<Rightarrow> (False, invalid_action_plan rt input))"

text \<open>The steps from the parsed plan to the final plan.\<close>

definition normalize_parsed :: "runtime \<Rightarrow> jsval \<Rightarrow> js_error + (bool \<times> PlanRecommendation)" where
  "normalize_parsed rt plan =
     (case plan_defaults rt plan of
        Inl e \<Rightarrow> Inl e
      | Inr p \<Rightarrow> Inr (validateAndNormalizePlan rt p))"

definition planner ::
  "runtime \<Rightarrow> SupervisorState \<Rightarrow> SupervisorState option \<Rightarrow> string + jsval
     \<Rightarrow> js_error + SupervisorState" where
  "planner rt st cached oracle =
     (case cached of
        Some f \<Rightarrow> Inr f
      | None \<Rightarrow>
          if messages st = [] then
            Inr (empty_fragment
              \<lparr> messages := [planner_message rt (fallbackPlan ''No valid messages to analyze'')] \<rparr>)
          else case oracle of
              Inl invokeError \<Rightarrow>
                (let plan = fallbackPlan (''LLM invocation error: '' @ invokeError)
                 in Inr (empty_fragment
                      \<lparr> messages := [planner_message rt plan],
                        plannerRecommendation := Val plan \<rparr>))
            | Inr resp \<Rightarrow>
                (case normalize_parsed rt (planner_parse rt (planner_text rt resp)) of
                   Inl e \<Rightarrow> Inl e
                 | Inr (valid, finalPlan) \<Rightarrow>
                     Inr (empty_fragment
                       \<lparr> messages := [planner_message rt finalPlan],
                         plannerRecommendation := Val finalPlan,
                         userId := userId st,
                         conversationId := conversationId st,
                         workflowContext := workflowContext st,
                         pendingProduct := pendingProduct st,
                         dealData := dealData st,
                         cartData := cartData st,
                         notificationData := notificationData st,
                         delegationDepth := delegationDepth st \<rparr>)))"

section \<open>Example inputs\<close>

text \<open>
  Concrete inputs at which the properties below are evaluated. \<open>example_parse\<close> stands
  for \<^verbatim>\<open>JSON.parse\<close> on the texts that occur in them: it gives the value of each
  JSON text listed, and the other texts that reach it are not JSON.
\<close>

definition success_reply :: string where
  "success_reply = ''{\"checkoutStatus\":\"success\",\"orderId\":\"ORD-1\"}''"

definition success_reply_not_found :: string where
  "success_reply_not_found =
     ''{\"checkoutStatus\":\"success\",\"orderId\":\"ORD-1\",\"summary\":\"Order placed, 1 item not found\"}''"

definition success_reply_no_order :: string where
  "success_reply_no_order = ''{\"checkoutStatus\":\"success\",\"orderId\":\"\"}''"

definition greeting_plan_text :: string where
  "greeting_plan_text = ''{\"action\":\"direct_response\",\"confidence\":0.5,\"task\":\"hi\"}''"

definition example_parse :: "string \<Rightarrow> jsval option" where
  "example_parse text =
     (if text = success_reply then
        Some (JObj [(''checkoutStatus'', JStr ''success''), (''orderId'', JStr ''ORD-1'')])
      else if text = success_reply_not_found then
        Some (JObj [(''checkoutStatus'', JStr ''success''), (''orderId'', JStr ''ORD-1''),
                    (''summary'', JStr ''Order placed, 1 item not found'')])
      else if text = success_reply_no_order then
        Some (JObj [(''checkoutStatus'', JStr ''success''), (''orderId'', JStr [])])
      else if text = greeting_plan_text then
        Some (JObj [(''action'', JStr ''direct_response''), (''confidence'', JNum (Fin 0.5)),
                    (''task'', JStr ''hi'')])
      else None)"

definition example_runtime :: runtime where
  "example_runtime =
     \<lparr> JSON_parse = example_parse,
       JSON_stringify = (\<lambda>v. []),
       String_of = (\<lambda>v. []),
       Number_of = (\<lambda>v. NaN),
       show_number = (\<lambda>r. []) \<rparr>"

definition user_says :: "string \<Rightarrow> AnnotatedMessage" where
  "user_says text = annotateMessage (Text text) RoleUser None"

text \<open>
  A reply with the text both in its last message and at top level, and a reply as an
  agent graph gives it, with messages only.
\<close>

definition agent_replies :: "string \<Rightarrow> AgentResult" where
  "agent_replies text = \<lparr> reply_messages = [Text text], reply_content = Some text \<rparr>"

definition graph_replies :: "string \<Rightarrow> AgentResult" where
  "graph_replies text = \<lparr> reply_messages = [Text text], reply_content = None \<rparr>"

definition bananas :: ProductInfo where
  "bananas = \<lparr> product = ''bananas'', quantity = Some 2 \<rparr>"

definition apples :: ProductInfo where
  "apples = \<lparr> product = ''apples'', quantity = None \<rparr>"

definition session :: SupervisorState where
  "session = empty_fragment \<lparr> userId := Val ''user123'', conversationId := Val ''conv-1'' \<rparr>"

definition delegate_plan :: PlanRecommendation where
  "delegate_plan =
     \<lparr> action = ''delegate'', targetAgent = None, task = None, confidence = Some (Fin 0.9),
       reasoning = Some ''grocery request'', autoApplyIntent = Some False \<rparr>"

text \<open>A cart addition inside a workflow that asked for checkout as well.\<close>

definition chained_deal :: DealData where
  "chained_deal = empty_deal \<lparr> applied := Some True, includesCheckout := Some True,
                               workflowType := Some ''deals_to_cart_to_checkout'' \<rparr>"

definition cart_add_state :: SupervisorState where
  "cart_add_state =
     session \<lparr> messages := [user_says ''add apples to my cart with any deals, then proceed''],
               workflowContext := Val ''add_to_cart_with_deals'',
               dealData := Val chained_deal,
               pendingProduct := Val apples \<rparr>"

text \<open>A checkout turn, once with no pending product and once with one.\<close>

definition checkout_state :: SupervisorState where
  "checkout_state =
     session \<lparr> messages := [user_says ''Please checkout''],
               workflowContext := Val ''process_checkout'',
               cartData := JObj [(''total'', JNum (Fin 5))] \<rparr>"

definition checkout_state_pending :: SupervisorState where
  "checkout_state_pending = checkout_state \<lparr> pendingProduct := Val bananas \<rparr>"

text \<open>Two turns that reach the deals node with the product already known.\<close>

definition check_deals_state :: SupervisorState where
  "check_deals_state =
     session \<lparr> messages := [user_says ''check deals on apples and add them to my cart''],
               workflowContext := Val ''check_deals'',
               pendingProduct := Val apples,
               plannerRecommendation := Val delegate_plan \<rparr>"

definition price_question_state :: SupervisorState where
  "price_question_state =
     session \<lparr> messages := [user_says ''how much are apples?''],
               pendingProduct := Val apples,
               plannerRecommendation := Val delegate_plan \<rparr>"

definition no_extraction :: "string \<Rightarrow> ProductInfo option" where
  "no_extraction text = None"

text \<open>A deal has been offered for two bananas and the user answers.\<close>

definition offered_deal :: DealData where
  "offered_deal = empty_deal \<lparr> pending := Some True, type := Some ''product_deal'',
                               response := Some ''Bananas are 10% off. Would you like to apply this deal?'' \<rparr>"

definition awaiting_state :: "string \<Rightarrow> SupervisorState" where
  "awaiting_state answer =
     session \<lparr> messages := [user_says answer],
               workflowContext := Val ''awaiting_deal_confirmation'',
               dealData := Val offered_deal,
               pendingProduct := Val bananas \<rparr>"

definition silent_oracles :: Oracles where
  "silent_oracles =
     \<lparr> continuationAnalysis =
         \<lparr> isContinuation = False, continuationType = None, continuationTarget = None,
           continuationConfidence = 0 \<rparr>,
       routingAnswer = Some ''catalog'',
       extractedProduct = None \<rparr>"

text \<open>
  The plan of the greeting example as \<^verbatim>\<open>JSON.parse\<close> gives it, and a model
  answer that is prose rather than JSON.
\<close>

definition greeting_plan :: jsval where
  "greeting_plan =
     JObj [(''action'', JStr ''direct_response''), (''confidence'', JNum (Fin 0.5)),
           (''task'', JStr ''hi'')]"

definition prose_answer :: jsval where
  "prose_answer = JObj [(''content'', JStr ''I think you should delegate this to the catalog'')]"

text \<open>Twelve chat messages followed by seven progress updates.\<close>

definition chat_history :: "AnnotatedMessage list" where
  "chat_history = replicate 12 (user_says ''hello'')"

definition progress_burst :: "AnnotatedMessage list" where
  "progress_burst = replicate 7 (createProgressMessage ''Working...'' ''supervisor'')"

section \<open>The messages reducer\<close>

lemma isPermanent_iff: "isPermanent m = (\<not> isEphemeral m)"
  by (simp add: isPermanent_def isEphemeral_def split: option.splits)

lemma filter_slice_last_same:
  "filter P (slice_last n (filter P xs)) = slice_last n (filter P xs)"
proof -
  have "set (slice_last n (filter P xs)) \<subseteq> set (filter P xs)"
    unfolding slice_last_def by (rule set_drop_subset)
  then show ?thesis by (auto simp: filter_id_conv)
qed

lemma filter_slice_last_other:
  assumes "\<And>m. Q m \<Longrightarrow> \<not> P m"
  shows "filter P (slice_last n (filter Q xs)) = []"
proof -
  have "set (slice_last n (filter Q xs)) \<subseteq> set (filter Q xs)"
    unfolding slice_last_def by (rule set_drop_subset)
  with assms show ?thesis by (auto simp: filter_empty_conv)
qed

lemma length_slice_last: "length (slice_last n xs) \<le> n"
  by (simp add: slice_last_def)

lemma subseq_slice_last_filter: "subseq (slice_last n (filter P xs)) xs"
proof -
  have "suffix (slice_last n (filter P xs)) (filter P xs)"
    unfolding slice_last_def by (rule suffix_drop)
  then have "subseq (slice_last n (filter P xs)) (filter P xs)"
    by (blast intro: sublist_imp_subseq suffix_imp_sublist)
  also have "subseq (filter P xs) xs" by simp
  finally show ?thesis .
qed

lemma messages_reducer_split:
  "messages_reducer x y =
     slice_last 10 (filter isPermanent (x @ y)) @ slice_last 5 (filter isEphemeral (x @ y))"
  by (simp add: messages_reducer_def Let_def del: filter_append)

lemma permanent_part:
  "filter isPermanent (messages_reducer x y) = slice_last 10 (filter isPermanent (x @ y))"
proof -
  define ps where "ps = slice_last 10 (filter isPermanent (x @ y))"
  define es where "es = slice_last 5 (filter isEphemeral (x @ y))"
  have "filter isPermanent es = []"
    unfolding es_def by (rule filter_slice_last_other) (simp add: isPermanent_iff)
  moreover have "filter isPermanent ps = ps"
    unfolding ps_def by (rule filter_slice_last_same)
  ultimately have "filter isPermanent (ps @ es) = ps" by simp
  then show ?thesis unfolding messages_reducer_split ps_def es_def .
qed

lemma ephemeral_part:
  "filter isEphemeral (messages_reducer x y) = slice_last 5 (filter isEphemeral (x @ y))"
proof -
  define ps where "ps = slice_last 10 (filter isPermanent (x @ y))"
  define es where "es = slice_last 5 (filter isEphemeral (x @ y))"
  have "filter isEphemeral ps = []"
    unfolding ps_def by (rule filter_slice_last_other) (simp add: isPermanent_iff)
  moreover have "filter isEphemeral es = es"
    unfolding es_def by (rule filter_slice_last_same)
  ultimately have "filter isEphemeral (ps @ es) = es" by simp
  then show ?thesis unfolding messages_reducer_split ps_def es_def .
qed

text \<open>
  Claim C6. For all old and new message lists, the output of the messages reducer holds
  at most 10 permanent and at most 5 ephemeral messages, is its permanent messages
  followed by its ephemeral messages, and each of the two groups is a subsequence of the
  concatenation of old and new (their relative order is kept).
\<close>

theorem messages_reducer_caps:
  "length (filter isPermanent (messages_reducer x y)) \<le> 10
   \<and> length (filter isEphemeral (messages_reducer x y)) \<le> 5
   \<and> messages_reducer x y =
       filter isPermanent (messages_reducer x y) @ filter isEphemeral (messages_reducer x y)
   \<and> subseq (filter isPermanent (messages_reducer x y)) (x @ y)
   \<and> subseq (filter isEphemeral (messages_reducer x y)) (x @ y)"
  unfolding permanent_part ephemeral_part
  using messages_reducer_split [of x y] length_slice_last subseq_slice_last_filter by blast

text \<open>
  At twelve chat messages and seven progress updates the reducer keeps the last ten chat
  messages and then the last five progress updates.
\<close>

theorem messages_reducer_caps_witness:
  "messages_reducer chat_history progress_burst =
     replicate 10 (user_says ''hello'')
     @ replicate 5 (createProgressMessage ''Working...'' ''supervisor'')
   \<and> length (filter isPermanent (messages_reducer chat_history progress_burst)) \<le> 10
   \<and> length (filter isEphemeral (messages_reducer chat_history progress_burst)) \<le> 5
   \<and> subseq (filter isPermanent (messages_reducer chat_history progress_burst))
        (chat_history @ progress_burst)
   \<and> subseq (filter isEphemeral (messages_reducer chat_history progress_burst))
        (chat_history @ progress_burst)"
proof -
  have out: "messages_reducer chat_history progress_burst =
     replicate 10 (user_says ''hello'')
     @ replicate 5 (createProgressMessage ''Working...'' ''supervisor'')"
    by code_simp
  show ?thesis
    using messages_reducer_caps [of chat_history progress_burst] out by blast
qed

section \<open>Cart and checkout node\<close>

lemmas example_defs =
  example_runtime_def example_parse_def success_reply_def success_reply_not_found_def
  success_reply_no_order_def greeting_plan_text_def

lemmas state_defs =
  session_def empty_fragment_def user_says_def annotateMessage_def
  cart_add_state_def checkout_state_def checkout_state_pending_def bananas_def apples_def

lemma cart_responseContent_reply [simp]:
  "cart_responseContent (agent_replies t) = (if t = [] then [] else t)"
  by (simp add: cart_responseContent_def agent_replies_def)

text \<open>
  Claim C2, as amended. Whenever the reply text parses (directly or through the brace
  match) to a value whose \<^verbatim>\<open>checkoutStatus\<close> is \<^verbatim>\<open>"success"\<close>, and the
  product-not-recognized branch does not fire (the text has none of its three phrases,
  or no pending product is present), the node returns \<^verbatim>\<open>next = 'supervisor'\<close>,
  \<^verbatim>\<open>workflowContext = 'send_notification'\<close>, \<^verbatim>\<open>pendingProduct = null\<close>,
  \<^verbatim>\<open>cartData = null\<close>, and \<^verbatim>\<open>notificationData.orderId\<close> is the reply's
  \<^verbatim>\<open>orderId\<close> when that is truthy and \<^verbatim>\<open>null\<close> otherwise.
\<close>

theorem checkout_success_routes_to_supervisor:
  assumes "get_prop (safeParseJson rt (cart_responseContent result)) ''checkoutStatus''
             = JStr ''success''"
    and "\<not> (productNotRecognized (cart_responseContent result) \<and> present (pendingProduct st))"
  shows "next (cartAndCheckoutNode rt now st result) = Val (Node ''supervisor'')
    \<and> workflowContext (cartAndCheckoutNode rt now st result) = Val ''send_notification''
    \<and> get_prop (notificationData (cartAndCheckoutNode rt now st result)) ''orderId''
        = js_or (get_prop (safeParseJson rt (cart_responseContent result)) ''orderId'') JNull
    \<and> pendingProduct (cartAndCheckoutNode rt now st result) = Null
    \<and> cartData (cartAndCheckoutNode rt now st result) = JNull"
proof -
  have "truthy (safeParseJson rt (cart_responseContent result))"
    using assms(1) by (cases "safeParseJson rt (cart_responseContent result)") auto
  then show ?thesis
    using assms by (simp add: cartAndCheckoutNode_def Let_def)
qed

text \<open>
  The reply \<^verbatim>\<open>{"checkoutStatus":"success","orderId":"ORD-1"}\<close> on a checkout turn
  with no pending product.
\<close>

theorem checkout_success_routes_to_supervisor_witness:
  "get_prop (safeParseJson example_runtime (cart_responseContent (agent_replies success_reply)))
      ''checkoutStatus'' = JStr ''success''
   \<and> \<not> (productNotRecognized (cart_responseContent (agent_replies success_reply))
          \<and> present (pendingProduct checkout_state))
   \<and> next (cartAndCheckoutNode example_runtime 0 checkout_state (agent_replies success_reply))
       = Val (Node ''supervisor'')
   \<and> workflowContext (cartAndCheckoutNode example_runtime 0 checkout_state (agent_replies success_reply))
       = Val ''send_notification''
   \<and> get_prop (notificationData
         (cartAndCheckoutNode example_runtime 0 checkout_state (agent_replies success_reply)))
         ''orderId'' = JStr ''ORD-1''
   \<and> pendingProduct (cartAndCheckoutNode example_runtime 0 checkout_state (agent_replies success_reply))
       = Null
   \<and> cartData (cartAndCheckoutNode example_runtime 0 checkout_state (agent_replies success_reply))
       = JNull"
proof -
  have ne: "success_reply \<noteq> []" by (simp add: success_reply_def)
  have p: "safeParseJson example_runtime success_reply =
      JObj [(''checkoutStatus'', JStr ''success''), (''orderId'', JStr ''ORD-1'')]"
    by (simp add: safeParseJson_def example_defs)
  have h1: "get_prop (safeParseJson example_runtime (cart_responseContent (agent_replies success_reply)))
      ''checkoutStatus'' = JStr ''success''"
    by (simp add: ne p)
  have h2: "\<not> (productNotRecognized (cart_responseContent (agent_replies success_reply))
          \<and> present (pendingProduct checkout_state))"
    by (simp add: state_defs)
  show ?thesis
    using checkout_success_routes_to_supervisor [OF h1 h2, of 0] h1 h2
    by (simp add: ne p js_or_def)
qed

text \<open>
  Claim C2 as stated fails at two replies that parse with \<^verbatim>\<open>checkoutStatus\<close>
  \<^verbatim>\<open>"success"\<close>. With a pending product in the state and the summary
  \<^verbatim>\<open>"Order placed, 1 item not found"\<close>, the product-not-recognized branch comes
  first: the turn ends, the workflow context is \<^verbatim>\<open>null\<close>, no notification data is
  returned and the cart is kept. With \<^verbatim>\<open>"orderId":""\<close> the notification's order id
  is \<^verbatim>\<open>null\<close>, not the reply's.
\<close>

theorem checkout_success_counterexample:
  "get_prop (safeParseJson example_runtime (cart_responseContent (agent_replies success_reply_not_found)))
      ''checkoutStatus'' = JStr ''success''
   \<and> next (cartAndCheckoutNode example_runtime 0 checkout_state_pending
              (agent_replies success_reply_not_found)) = Val END
   \<and> workflowContext (cartAndCheckoutNode example_runtime 0 checkout_state_pending
              (agent_replies success_reply_not_found)) = Null
   \<and> notificationData (cartAndCheckoutNode example_runtime 0 checkout_state_pending
              (agent_replies success_reply_not_found)) = JUndefined
   \<and> cartData (cartAndCheckoutNode example_runtime 0 checkout_state_pending
              (agent_replies success_reply_not_found)) \<noteq> JNull
   \<and> get_prop (safeParseJson example_runtime (cart_responseContent (agent_replies success_reply_no_order)))
      ''checkoutStatus'' = JStr ''success''
   \<and> get_prop (safeParseJson example_runtime (cart_responseContent (agent_replies success_reply_no_order)))
      ''orderId'' = JStr []
   \<and> get_prop (notificationData (cartAndCheckoutNode example_runtime 0 checkout_state
              (agent_replies success_reply_no_order))) ''orderId'' = JNull"
proof -
  have nf: "productNotRecognized success_reply_not_found"
    by code_simp
  have no: "\<not> productNotRecognized success_reply_no_order"
    by code_simp
  have p1: "safeParseJson example_runtime success_reply_not_found =
      JObj [(''checkoutStatus'', JStr ''success''), (''orderId'', JStr ''ORD-1''),
            (''summary'', JStr ''Order placed, 1 item not found'')]"
    by (simp add: safeParseJson_def example_defs)
  have p2: "safeParseJson example_runtime success_reply_no_order =
      JObj [(''checkoutStatus'', JStr ''success''), (''orderId'', JStr [])]"
    by (simp add: safeParseJson_def example_defs)
  have ne1: "success_reply_not_found \<noteq> []" by (simp add: success_reply_not_found_def)
  have ne2: "success_reply_no_order \<noteq> []" by (simp add: success_reply_no_order_def)
  show ?thesis
    using nf no
    by (simp add: cartAndCheckoutNode_def Let_def p1 p2 ne1 ne2 js_or_def state_defs)
qed

text \<open>
  Claim C5. When \<^verbatim>\<open>dealData.includesCheckout\<close> is true, the workflow context is
  \<^verbatim>\<open>add_to_cart_with_deals\<close>, the turn is not a checkout request, and the reply
  carries no product-not-recognized phrase, no structured \<^verbatim>\<open>checkoutStatus\<close> of
  success or failure (in particular none at all) and no checkout-success phrase, the node
  returns \<^verbatim>\<open>workflowContext = 'add_to_cart_with_checkout'\<close>, the deal data with
  \<^verbatim>\<open>includesCheckout\<close> set to false and every other field kept,
  \<^verbatim>\<open>pendingProduct = null\<close> and \<^verbatim>\<open>next = 'supervisor'\<close>.
\<close>

theorem auto_checkout_chaining:
  assumes "dealData st = Val d"
    and "includesCheckout d = Some True"
    and "workflowContext st = Val ''add_to_cart_with_deals''"
    and "\<not> isCheckoutRequest st"
    and "\<not> productNotRecognized (cart_responseContent result)"
    and "get_prop (safeParseJson rt (cart_responseContent result)) ''checkoutStatus''
           \<noteq> JStr ''success''"
    and "get_prop (safeParseJson rt (cart_responseContent result)) ''checkoutStatus''
           \<noteq> JStr ''failure''"
    and "\<not> checkoutSuccess (cart_responseContent result)"
  shows "workflowContext (cartAndCheckoutNode rt now st result) = Val ''add_to_cart_with_checkout''
    \<and> dealData (cartAndCheckoutNode rt now st result) = Val (d \<lparr> includesCheckout := Some False \<rparr>)
    \<and> pendingProduct (cartAndCheckoutNode rt now st result) = Null
    \<and> next (cartAndCheckoutNode rt now st result) = Val (Node ''supervisor'')"
proof -
  have auto: "shouldAutoCheckout st"
    using assms(1-4) by (simp add: shouldAutoCheckout_def)
  show ?thesis
    using assms(1,5-8) auto
    by (simp add: cartAndCheckoutNode_def Let_def spread_deal_def)
qed

text \<open>
  A cart addition in a workflow that includes checkout; the agent answers
  \<^verbatim>\<open>Added 1 apples to your cart.\<close>
\<close>

theorem auto_checkout_chaining_witness:
  "dealData cart_add_state = Val chained_deal
   \<and> includesCheckout chained_deal = Some True
   \<and> workflowContext cart_add_state = Val ''add_to_cart_with_deals''
   \<and> \<not> isCheckoutRequest cart_add_state
   \<and> \<not> productNotRecognized (cart_responseContent (agent_replies ''Added 1 apples to your cart.''))
   \<and> get_prop (safeParseJson example_runtime
          (cart_responseContent (agent_replies ''Added 1 apples to your cart.''))) ''checkoutStatus''
        = JUndefined
   \<and> \<not> checkoutSuccess (cart_responseContent (agent_replies ''Added 1 apples to your cart.''))
   \<and> workflowContext (cartAndCheckoutNode example_runtime 0 cart_add_state
         (agent_replies ''Added 1 apples to your cart.'')) = Val ''add_to_cart_with_checkout''
   \<and> dealData (cartAndCheckoutNode example_runtime 0 cart_add_state
         (agent_replies ''Added 1 apples to your cart.''))
       = Val (chained_deal \<lparr> includesCheckout := Some False \<rparr>)
   \<and> pendingProduct (cartAndCheckoutNode example_runtime 0 cart_add_state
         (agent_replies ''Added 1 apples to your cart.'')) = Null
   \<and> next (cartAndCheckoutNode example_runtime 0 cart_add_state
         (agent_replies ''Added 1 apples to your cart.'')) = Val (Node ''supervisor'')"
proof -
  let ?r = "agent_replies ''Added 1 apples to your cart.''"
  have h1: "dealData cart_add_state = Val chained_deal"
    by (simp add: state_defs)
  have h2: "includesCheckout chained_deal = Some True"
    by (simp add: chained_deal_def empty_deal_def)
  have h3: "workflowContext cart_add_state = Val ''add_to_cart_with_deals''"
    by (simp add: state_defs)
  have h4: "\<not> isCheckoutRequest cart_add_state"
    by code_simp
  have h5: "\<not> productNotRecognized (cart_responseContent ?r)"
    by code_simp
  have s: "get_prop (safeParseJson example_runtime (cart_responseContent ?r)) ''checkoutStatus''
             = JUndefined"
    by (simp add: safeParseJson_def brace_match_def example_defs)
  have h6: "get_prop (safeParseJson example_runtime (cart_responseContent ?r)) ''checkoutStatus''
              \<noteq> JStr ''success''"
    using s by simp
  have h7: "get_prop (safeParseJson example_runtime (cart_responseContent ?r)) ''checkoutStatus''
              \<noteq> JStr ''failure''"
    using s by simp
  have h8: "\<not> checkoutSuccess (cart_responseContent ?r)"
    by code_simp
  show ?thesis
    using auto_checkout_chaining [OF h1 h2 h3 h4 h5 h6 h7 h8, of 0] h1 h2 h3 h4 h5 s h8
    by blast
qed

section \<open>Deals node\<close>

text \<open>
  Claim C10. The reply interpretation of the deals node is not total. Whenever a
  product is known, the reply has none of the confirmation phrases, the message sent to
  the agent has none of the complex-workflow keyword combinations, and the reply has
  none of the no-deals phrases, the function ends without a \<^verbatim>\<open>return\<close>: no
  fragment, no next target, no messages.
\<close>

theorem deals_node_falls_through:
  assumes "effectivePending extract st = Some p"
    and "\<not> requiresConfirmation (deals_responseContent result)"
    and "\<not> deals_isComplexWorkflow (deals_messageToAgent rt st p)"
    and "\<not> noDealsAvailable (deals_responseContent result)"
  shows "dealsNode rt extract st result = None"
  using assms by (simp add: dealsNode_def Let_def)

text \<open>
  A price question about apples, a pending product, no workflow context, and the reply
  \<^verbatim>\<open>Apples are 1.99 per lb.\<close> The same happens when the reply has no top-level
  content and the node reads \<^verbatim>\<open>No deals found\<close> instead.
\<close>

theorem deals_node_falls_through_witness:
  "effectivePending no_extraction price_question_state = Some apples
   \<and> \<not> requiresConfirmation (deals_responseContent (agent_replies ''Apples are 1.99 per lb.''))
   \<and> \<not> deals_isComplexWorkflow (deals_messageToAgent example_runtime price_question_state apples)
   \<and> \<not> noDealsAvailable (deals_responseContent (agent_replies ''Apples are 1.99 per lb.''))
   \<and> workflowContext price_question_state = Undefined
   \<and> dealsNode example_runtime no_extraction price_question_state
        (agent_replies ''Apples are 1.99 per lb.'') = None
   \<and> dealsNode example_runtime no_extraction price_question_state
        (graph_replies ''Apples are 1.99 per lb.'') = None"
proof -
  let ?r = "agent_replies ''Apples are 1.99 per lb.''"
  have h1: "effectivePending no_extraction price_question_state = Some apples"
    by code_simp
  have h2: "\<not> requiresConfirmation (deals_responseContent ?r)"
    by code_simp
  have h3: "\<not> deals_isComplexWorkflow (deals_messageToAgent example_runtime price_question_state apples)"
    by code_simp
  have h4: "\<not> noDealsAvailable (deals_responseContent ?r)"
    by code_simp
  have h5: "workflowContext price_question_state = Undefined"
    by code_simp
  have g: "dealsNode example_runtime no_extraction price_question_state
        (graph_replies ''Apples are 1.99 per lb.'') = None"
    by code_simp
  show ?thesis
    using deals_node_falls_through [OF h1 h2 h3 h4] h1 h2 h3 h4 h5 g by blast
qed

section \<open>Hub and spoke\<close>

text \<open>Where each specialist node sends the turn next.\<close>

lemma catalogNode_next: "next (catalogNode st result) = Val END"
  by (simp add: catalogNode_def)

lemma paymentNode_next: "next (paymentNode st result) = Val END"
  by (simp add: paymentNode_def)

lemma notificationAgent_next: "next (notificationAgent st sent) = Val END"
  by (simp add: notificationAgent_def Let_def split: option.splits)

lemma cartAndCheckoutNode_next:
  "next (cartAndCheckoutNode rt now st result) = Val END
   \<or> next (cartAndCheckoutNode rt now st result) = Val (Node ''supervisor'')"
  by (simp add: cartAndCheckoutNode_def Let_def)

lemma dealsNode_next:
  assumes "dealsNode rt extract st result = Some f"
  shows "next f = Val END \<or> next f = Val (Node ''supervisor'')
    \<or> next f = Val (Node ''cart_and_checkout'')"
  using assms by (auto simp: dealsNode_def Let_def split: option.splits if_splits)

lemma starts_with_iff: "starts_with s p \<longleftrightarrow> (\<exists>b. s = p @ b)"
  by (induction s p rule: starts_with.induct) auto

lemma str_includes_iff: "str_includes s p \<longleftrightarrow> (\<exists>a b. s = a @ p @ b)"
proof (induction s)
  case Nil
  then show ?case by auto
next
  case (Cons c cs)
  show ?case
  proof
    assume "str_includes (c # cs) p"
    then consider "starts_with (c # cs) p" | "str_includes cs p" by auto
    then show "\<exists>a b. c # cs = a @ p @ b"
    proof cases
      case 1
      then obtain b where "c # cs = p @ b" using starts_with_iff by blast
      then have "c # cs = [] @ p @ b" by simp
      then show ?thesis by blast
    next
      case 2
      then obtain a b where "cs = a @ p @ b" using Cons.IH by blast
      then have "c # cs = (c # a) @ p @ b" by simp
      then show ?thesis by blast
    qed
  next
    assume "\<exists>a b. c # cs = a @ p @ b"
    then obtain a b where ab: "c # cs = a @ p @ b" by blast
    show "str_includes (c # cs) p"
    proof (cases a)
      case Nil
      with ab have "starts_with (c # cs) p" using starts_with_iff by auto
      then show ?thesis by simp
    next
      case (Cons a0 as)
      with ab have "cs = as @ p @ b" by simp
      then have "str_includes cs p" using Cons.IH by blast
      then show ?thesis by simp
    qed
  qed
qed

lemma str_includes_middle: "str_includes (a @ p @ b) p"
  using str_includes_iff by blast

lemma toLowerCase_append: "toLowerCase (a @ b) = toLowerCase a @ toLowerCase b"
  by (simp add: toLowerCase_def)

text \<open>
  In the \<^verbatim>\<open>check_deals\<close> context both rewritten messages contain the keywords of
  the node's complex-workflow test, so the test always holds there.
\<close>

lemma check_deals_message_is_complex:
  assumes "workflowContext st = Val ''check_deals''"
  shows "deals_isComplexWorkflow (deals_messageToAgent rt st p)"
proof -
  define m where "m = lastMessageContent (messages st)"
  define rest where "rest = product p @ quantity_note rt p"
  have lw: "toLowerCase ''Complex workflow request: '' = ''complex workflow request: ''"
    by code_simp
  have lc: "toLowerCase ''User wants to add to cart: '' = ''user wants to add to cart: ''"
    by code_simp
  have ld: "toLowerCase ''. Check for deals on '' = ''. check for deals on ''"
    by code_simp
  have A: "str_includes (toLowerCase (''Complex workflow request: '' @ x)) ''complex workflow request''" for x
  proof -
    have "toLowerCase (''Complex workflow request: '' @ x)
        = toLowerCase ''Complex workflow request: '' @ toLowerCase x"
      by (rule toLowerCase_append)
    also have "\<dots> = ''complex workflow request: '' @ toLowerCase x"
      by (simp only: lw)
    also have "\<dots> = [] @ ''complex workflow request'' @ ('': '' @ toLowerCase x)"
      by simp
    finally show ?thesis by (metis str_includes_middle)
  qed
  have B: "str_includes (toLowerCase (''User wants to add to cart: '' @ x)) ''cart''" for x
  proof -
    have "toLowerCase (''User wants to add to cart: '' @ x)
        = toLowerCase ''User wants to add to cart: '' @ toLowerCase x"
      by (rule toLowerCase_append)
    also have "\<dots> = ''user wants to add to cart: '' @ toLowerCase x"
      by (simp only: lc)
    also have "\<dots> = ''user wants to add to '' @ ''cart'' @ ('': '' @ toLowerCase x)"
      by simp
    finally show ?thesis by (metis str_includes_middle)
  qed
  have C: "str_includes (toLowerCase (x @ ''. Check for deals on '' @ y)) ''deal''" for x y
  proof -
    have "toLowerCase (x @ ''. Check for deals on '' @ y)
        = toLowerCase x @ toLowerCase ''. Check for deals on '' @ toLowerCase y"
      by (simp only: toLowerCase_append)
    also have "\<dots> = toLowerCase x @ ''. check for deals on '' @ toLowerCase y"
      by (simp only: ld)
    also have "\<dots> = (toLowerCase x @ ''. check for '') @ ''deal'' @ (''s on '' @ toLowerCase y)"
      by simp
    finally show ?thesis by (metis str_includes_middle)
  qed
  show ?thesis
  proof (cases "deals_messageToAgent rt st p =
      ''Complex workflow request: '' @ dquote @ m @ dquote
              @ ''. User wants to check for deals on '' @ rest
              @ '' and conditionally add to cart if deals are available. Please check for deals and present options clearly.''")
    case True
    then show ?thesis
      unfolding deals_isComplexWorkflow_def Let_def using A by simp
  next
    case False
    then have e: "deals_messageToAgent rt st p =
        ''User wants to add to cart: '' @ (dquote @ m @ dquote) @ ''. Check for deals on '' @ rest"
      using assms by (simp add: deals_messageToAgent_def Let_def m_def rest_def split: if_splits)
    have "str_includes (toLowerCase (deals_messageToAgent rt st p)) ''cart''"
      unfolding e by (rule B)
    moreover have "str_includes (toLowerCase (deals_messageToAgent rt st p)) ''deal''"
      unfolding e using C [of "''User wants to add to cart: '' @ (dquote @ m @ dquote)" rest]
      by simp
    ultimately show ?thesis
      unfolding deals_isComplexWorkflow_def Let_def by simp
  qed
qed

text \<open>
  Hence every \<^verbatim>\<open>check_deals\<close> turn with a known product, no auto-apply intent and a
  reply that has no confirmation phrase and neither \<^verbatim>\<open>no current deals\<close> nor
  \<^verbatim>\<open>no deals available\<close> is sent on to the cart node directly.
\<close>

lemma check_deals_routes_to_cart:
  assumes "workflowContext st = Val ''check_deals''"
    and "effectivePending extract st = Some p"
    and "\<not> plannerAutoApply st"
    and "\<not> requiresConfirmation (deals_responseContent result)"
    and "\<not> str_includes (toLowerCase (deals_responseContent result)) ''no current deals''"
    and "\<not> str_includes (toLowerCase (deals_responseContent result)) ''no deals available''"
  shows "map_option next (dealsNode rt extract st result) = Some (Val (Node ''cart_and_checkout''))"
  using assms check_deals_message_is_complex [OF assms(1), of rt p]
  by (simp add: dealsNode_def Let_def)

text \<open>
  Claim C1 fails in the deals node. In the \<^verbatim>\<open>check_deals\<close> context, with a known
  product, no auto-apply intent from the planner and a reply that neither asks for
  confirmation nor reports that there are no deals, the node returns
  \<^verbatim>\<open>next = 'cart_and_checkout'\<close>, the name of another specialist. Here the
  agent graph answers \<^verbatim>\<open>Apples are 20% off this week.\<close> in its messages.
\<close>

theorem deals_node_routes_to_cart:
  "map_option next (dealsNode example_runtime no_extraction check_deals_state
       (graph_replies ''Apples are 20% off this week.''))
     = Some (Val (Node ''cart_and_checkout''))"
  by code_simp

section \<open>State carried by the specialist nodes\<close>

lemma catalogNode_preserves:
  "userId (catalogNode st result) = userId st
   \<and> conversationId (catalogNode st result) = conversationId st
   \<and> plannerRecommendation (catalogNode st result) = plannerRecommendation st"
  by (simp add: catalogNode_def)

lemma cartAndCheckoutNode_preserves:
  "userId (cartAndCheckoutNode rt now st result) = userId st
   \<and> conversationId (cartAndCheckoutNode rt now st result) = conversationId st
   \<and> plannerRecommendation (cartAndCheckoutNode rt now st result) = plannerRecommendation st"
  by (simp add: cartAndCheckoutNode_def Let_def)

lemma dealsNode_preserves:
  assumes "dealsNode rt extract st result = Some f"
  shows "userId f = userId st \<and> conversationId f = conversationId st
    \<and> plannerRecommendation f = plannerRecommendation st"
  using assms by (auto simp: dealsNode_def Let_def split: option.splits if_splits)

lemma paymentNode_preserves_ids:
  "userId (paymentNode st result) = userId st
   \<and> conversationId (paymentNode st result) = conversationId st"
  by (simp add: paymentNode_def)

text \<open>
  Claim C9 fails in the payment node: its fragment has no \<^verbatim>\<open>plannerRecommendation\<close>
  key, whatever the state holds.
\<close>

theorem payment_node_drops_recommendation:
  "plannerRecommendation (paymentNode st result) = Undefined"
  by (simp add: paymentNode_def empty_fragment_def)

section \<open>Supervisor: the deal-confirmation check\<close>

text \<open>
  Claim C4. In the \<^verbatim>\<open>awaiting_deal_confirmation\<close> context with a pending product,
  when a whitespace-separated word of the last message and an affirmative pattern
  contain one another, the supervisor returns \<^verbatim>\<open>next = 'cart_and_checkout'\<close> and
  \<^verbatim>\<open>workflowContext = 'add_to_cart_with_deals'\<close>, with the deal data and the pending
  product of the state.
\<close>

theorem deal_confirmation_routes_to_cart:
  assumes "workflowContext st = Val ''awaiting_deal_confirmation''"
    and "present (pendingProduct st)"
    and "hasAffirmative (lastMessageContent (messages st))"
  shows "\<exists>f. supervisor rt threshold orc st = Inr f
    \<and> next f = Val (Node ''cart_and_checkout'')
    \<and> workflowContext f = Val ''add_to_cart_with_deals''
    \<and> dealData f = dealData st
    \<and> pendingProduct f = pendingProduct st"
  using assms by (simp add: supervisor_def Let_def empty_fragment_def)

text \<open>Two bananas are pending and the user says \<^verbatim>\<open>yes please\<close>.\<close>

theorem deal_confirmation_routes_to_cart_witness:
  "workflowContext (awaiting_state ''yes please'') = Val ''awaiting_deal_confirmation''
   \<and> present (pendingProduct (awaiting_state ''yes please''))
   \<and> hasAffirmative (lastMessageContent (messages (awaiting_state ''yes please'')))
   \<and> (\<exists>f. supervisor example_runtime 0.7 silent_oracles (awaiting_state ''yes please'') = Inr f
        \<and> next f = Val (Node ''cart_and_checkout'')
        \<and> workflowContext f = Val ''add_to_cart_with_deals''
        \<and> dealData f = Val offered_deal
        \<and> pendingProduct f = Val bananas)"
proof -
  have h1: "workflowContext (awaiting_state ''yes please'') = Val ''awaiting_deal_confirmation''"
    by code_simp
  have h2: "present (pendingProduct (awaiting_state ''yes please''))"
    by code_simp
  have h3: "hasAffirmative (lastMessageContent (messages (awaiting_state ''yes please'')))"
    by code_simp
  have d: "dealData (awaiting_state ''yes please'') = Val offered_deal"
    by (simp add: awaiting_state_def session_def empty_fragment_def)
  have p: "pendingProduct (awaiting_state ''yes please'') = Val bananas"
    by (simp add: awaiting_state_def session_def empty_fragment_def)
  show ?thesis
    using deal_confirmation_routes_to_cart [OF h1 h2 h3, of example_runtime "0.7" silent_oracles]
      h1 h2 h3 by (simp add: d p)
qed

text \<open>
  What the decline branch returns, and what the reducers make of \<^verbatim>\<open>undefined\<close>.
  The workflow-context reducer keeps the old value for \<^verbatim>\<open>null\<close> as well.
\<close>

lemma deal_decline_fragment:
  assumes "workflowContext st = Val ''awaiting_deal_confirmation''"
    and "present (pendingProduct st)"
    and "\<not> hasAffirmative (lastMessageContent (messages st))"
  shows "\<exists>f. supervisor rt threshold orc st = Inr f
    \<and> next f = Val END
    \<and> workflowContext f = Undefined
    \<and> dealData f = Undefined
    \<and> pendingProduct f = Undefined"
  using assms by (simp add: supervisor_def Let_def empty_fragment_def)

lemma reducers_keep_on_undefined:
  "workflowContext_reducer x Undefined = x"
  "dealData_reducer d Undefined = d"
  "pendingProduct_reducer p Undefined = p"
  by (simp_all add: workflowContext_reducer_def)

lemma workflowContext_reducer_keeps_on_null: "workflowContext_reducer x Null = x"
  by (simp add: workflowContext_reducer_def)

text \<open>
  Claim C3 fails after the reducers. For \<^verbatim>\<open>no thanks\<close> the supervisor ends the turn
  and returns \<^verbatim>\<open>undefined\<close> for the workflow context, the deal data and the pending
  product; the three reducers keep the old value for \<^verbatim>\<open>undefined\<close>, so the merged
  state still awaits the confirmation of the same deal for the same product.
\<close>

theorem deal_decline_keeps_context:
  "\<not> isl (supervisor example_runtime 0.7 silent_oracles (awaiting_state ''no thanks''))
   \<and> next (projr (supervisor example_runtime 0.7 silent_oracles (awaiting_state ''no thanks'')))
       = Val END
   \<and> workflowContext
        (projr (supervisor example_runtime 0.7 silent_oracles (awaiting_state ''no thanks'')))
       = Undefined
   \<and> workflowContext_reducer (workflowContext (awaiting_state ''no thanks''))
        (workflowContext
          (projr (supervisor example_runtime 0.7 silent_oracles (awaiting_state ''no thanks''))))
       = Val ''awaiting_deal_confirmation''
   \<and> dealData_reducer (dealData (awaiting_state ''no thanks''))
        (dealData
          (projr (supervisor example_runtime 0.7 silent_oracles (awaiting_state ''no thanks''))))
       = Val offered_deal
   \<and> pendingProduct_reducer (pendingProduct (awaiting_state ''no thanks''))
        (pendingProduct
          (projr (supervisor example_runtime 0.7 silent_oracles (awaiting_state ''no thanks''))))
       = Val bananas"
proof -
  have h1: "workflowContext (awaiting_state ''no thanks'') = Val ''awaiting_deal_confirmation''"
    by code_simp
  have h2: "present (pendingProduct (awaiting_state ''no thanks''))"
    by code_simp
  have h3: "\<not> hasAffirmative (lastMessageContent (messages (awaiting_state ''no thanks'')))"
    by code_simp
  have d: "dealData (awaiting_state ''no thanks'') = Val offered_deal"
    by (simp add: awaiting_state_def session_def empty_fragment_def)
  have p: "pendingProduct (awaiting_state ''no thanks'') = Val bananas"
    by (simp add: awaiting_state_def session_def empty_fragment_def)
  show ?thesis
    using h1 h2 h3
    by (simp add: supervisor_def Let_def empty_fragment_def d p workflowContext_reducer_def)
qed

section \<open>Planner\<close>

lemma map_of_set_prop: "map_of (set_prop kvs k v) = (map_of kvs)(k \<mapsto> v)"
  by (induction kvs k v rule: set_prop.induct) (auto simp: fun_eq_iff)

lemma get_prop_set_prop:
  "get_prop (JObj (set_prop kvs k v)) k' = (if k' = k then v else get_prop (JObj kvs) k')"
  by (simp add: map_of_set_prop)

lemma get_prop_JStr_obj: "get_prop p k = JStr s \<Longrightarrow> \<exists>kvs. p = JObj kvs"
  by (cases p) auto

lemma plan_defaults_direct:
  assumes "get_prop (JObj kvs) ''action'' = JStr ''direct_response''"
    and "get_prop (JObj kvs) ''confidence'' = JNum (Fin c)"
  shows "\<exists>kvs'. plan_defaults rt (JObj kvs) = Inr (JObj kvs')
    \<and> get_prop (JObj kvs') ''action'' = JStr ''direct_response''
    \<and> get_prop (JObj kvs') ''confidence'' = JNum (Fin (max 0 (min 1 (if c = 0 then 0.5 else c))))"
  using assms
  by (simp add: plan_defaults_def Let_def get_prop_set_prop js_or_def del: get_prop.simps)

lemma normalized_plan_direct:
  assumes "get_prop input ''confidence'' = JNum (Fin c')" and "c' < 0.7" and "0 \<le> c'"
  shows "action (snd (normalized_plan rt input ''direct_response'')) = ''delegate''
    \<and> (\<exists>c''. confidence (snd (normalized_plan rt input ''direct_response'')) = Some (Fin c'')
          \<and> c'' \<le> c')"
  using assms by (auto simp: normalized_plan_def Let_def min_def max_def)

text \<open>
  Claim C7. For every parsed plan whose action is \<^verbatim>\<open>direct_response\<close> and whose
  confidence is a number below 0.7, the planner's normalisation (the three default
  assignments and \<^verbatim>\<open>validateAndNormalizePlan\<close>) returns a plan whose action is
  \<^verbatim>\<open>delegate\<close>. Its confidence stays below 0.7, and is at most 0.6 when the parsed
  confidence is at most 0.6, as in the example with confidence 0.5.
\<close>

theorem low_confidence_direct_response_demoted:
  assumes "get_prop plan ''action'' = JStr ''direct_response''"
    and "get_prop plan ''confidence'' = JNum (Fin c)"
    and "c < 0.7"
  shows "\<exists>valid final c'. normalize_parsed rt plan = Inr (valid, final)
    \<and> action final = ''delegate''
    \<and> confidence final = Some (Fin c')
    \<and> c' < 0.7
    \<and> (c \<le> 0.6 \<longrightarrow> c' \<le> 0.6)"
proof -
  obtain kvs where p: "plan = JObj kvs"
    using assms(1) get_prop_JStr_obj by blast
  define c1 where "c1 = max 0 (min 1 (if c = 0 then 0.5 else c))"
  obtain kvs' where d: "plan_defaults rt (JObj kvs) = Inr (JObj kvs')"
    and a: "get_prop (JObj kvs') ''action'' = JStr ''direct_response''"
    and cf: "get_prop (JObj kvs') ''confidence'' = JNum (Fin c1)"
    using plan_defaults_direct [OF assms(1,2) [unfolded p]] unfolding c1_def by blast
  have c1: "c1 < 0.7" "0 \<le> c1" "c \<le> 0.6 \<Longrightarrow> c1 \<le> 0.6"
    using assms(3) by (auto simp: c1_def)
  have lower: "toLowerCase ''direct_response'' = ''direct_response''"
    by (simp add: toLowerCase_def lower_char_def)
  have v: "validateAndNormalizePlan rt (JObj kvs')
             = normalized_plan rt (JObj kvs') ''direct_response''"
    using a by (simp add: validateAndNormalizePlan_def Let_def lower del: get_prop.simps)
  obtain c'' where n: "action (snd (normalized_plan rt (JObj kvs') ''direct_response'')) = ''delegate''"
    and n2: "confidence (snd (normalized_plan rt (JObj kvs') ''direct_response'')) = Some (Fin c'')"
    and n3: "c'' \<le> c1"
    using normalized_plan_direct [OF cf c1(1) c1(2)] by blast
  have r: "normalize_parsed rt plan =
      Inr (fst (normalized_plan rt (JObj kvs') ''direct_response''),
           snd (normalized_plan rt (JObj kvs') ''direct_response''))"
    by (simp add: normalize_parsed_def p d v)
  have "c'' < 0.7" and "c \<le> 0.6 \<longrightarrow> c'' \<le> 0.6"
    using n3 c1 by auto
  with r n n2 show ?thesis by blast
qed

text \<open>The plan \<^verbatim>\<open>{action: direct_response, confidence: 0.5, task: "hi"}\<close>.\<close>

theorem low_confidence_direct_response_demoted_witness:
  "get_prop greeting_plan ''action'' = JStr ''direct_response''
   \<and> get_prop greeting_plan ''confidence'' = JNum (Fin 0.5)
   \<and> (0.5::real) < 0.7
   \<and> (\<exists>valid final c'. normalize_parsed example_runtime greeting_plan = Inr (valid, final)
        \<and> action final = ''delegate''
        \<and> confidence final = Some (Fin c')
        \<and> c' \<le> 0.6)"
proof -
  have h1: "get_prop greeting_plan ''action'' = JStr ''direct_response''"
    by (simp add: greeting_plan_def)
  have h2: "get_prop greeting_plan ''confidence'' = JNum (Fin 0.5)"
    by (simp add: greeting_plan_def)
  have h3: "(0.5::real) < 0.7" by simp
  show ?thesis
    using low_confidence_direct_response_demoted [OF h1 h2 h3, of example_runtime] h1 h2 h3
    by fastforce
qed

lemma planner_parse_unparsed:
  assumes "JSON_parse rt (planner_jsonText text) = None"
  shows "planner_parse rt text =
     JObj [(''action'', JStr ''delegate''), (''task'', JStr (take 1000 text)),
           (''confidence'', JNum (Fin 0.5)),
           (''reasoning'', JStr ''Could not parse JSON plan from planner LLM; delegating for safety.'')]"
  using assms by (simp add: planner_parse_def)

lemma normalize_unparsed:
  "\<exists>valid final. normalize_parsed rt
     (JObj [(''action'', JStr ''delegate''), (''task'', JStr t),
            (''confidence'', JNum (Fin 0.5)), (''reasoning'', JStr why)]) = Inr (valid, final)
     \<and> action final = ''delegate'' \<and> confidence final = Some (Fin 0.5)"
proof -
  have lower: "toLowerCase ''delegate'' = ''delegate''"
    by (simp add: toLowerCase_def lower_char_def)
  show ?thesis
    by (auto simp: normalize_parsed_def plan_defaults_def Let_def js_or_def
        validateAndNormalizePlan_def normalized_plan_def lower)
qed

text \<open>
  Claim C8. Whenever the planner consults the model (there is a message and the cache
  has no entry) and the call throws, or the answer's JSON text does not parse, the
  planner returns a fragment rather than an error, and the fragment's
  \<^verbatim>\<open>plannerRecommendation\<close>, which is also attached to its last message, has action
  \<^verbatim>\<open>delegate\<close> and confidence 0.5.
\<close>

theorem planner_failure_degrades_to_delegate:
  assumes "messages st \<noteq> []"
  shows "(\<exists>f r. planner rt st None (Inl invokeError) = Inr f
            \<and> plannerRecommendation f = Val r
            \<and> planningRecommendation (last (messages f)) = Some r
            \<and> action r = ''delegate'' \<and> confidence r = Some (Fin 0.5))
     \<and> (JSON_parse rt (planner_jsonText (planner_text rt resp)) = None \<longrightarrow>
          (\<exists>f r. planner rt st None (Inr resp) = Inr f
            \<and> plannerRecommendation f = Val r
            \<and> planningRecommendation (last (messages f)) = Some r
            \<and> action r = ''delegate'' \<and> confidence r = Some (Fin 0.5)))"
proof (intro conjI impI)
  show "\<exists>f r. planner rt st None (Inl invokeError) = Inr f
            \<and> plannerRecommendation f = Val r
            \<and> planningRecommendation (last (messages f)) = Some r
            \<and> action r = ''delegate'' \<and> confidence r = Some (Fin 0.5)"
    using assms
    by (simp add: planner_def Let_def empty_fragment_def fallbackPlan_def planner_message_def)
next
  assume np: "JSON_parse rt (planner_jsonText (planner_text rt resp)) = None"
  obtain valid final
    where n: "normalize_parsed rt (planner_parse rt (planner_text rt resp)) = Inr (valid, final)"
    and a: "action final = ''delegate''" and c: "confidence final = Some (Fin 0.5)"
    unfolding planner_parse_unparsed [OF np] using normalize_unparsed by blast
  show "\<exists>f r. planner rt st None (Inr resp) = Inr f
            \<and> plannerRecommendation f = Val r
            \<and> planningRecommendation (last (messages f)) = Some r
            \<and> action r = ''delegate'' \<and> confidence r = Some (Fin 0.5)"
    using assms a c
    by (simp add: planner_def n empty_fragment_def planner_message_def)
qed

text \<open>
  A turn with one user message: the model call times out, or the model answers in prose.
\<close>

theorem planner_failure_degrades_to_delegate_witness:
  "messages price_question_state \<noteq> []
   \<and> (\<exists>f r. planner example_runtime price_question_state None (Inl ''request timed out'') = Inr f
            \<and> plannerRecommendation f = Val r
            \<and> action r = ''delegate'' \<and> confidence r = Some (Fin 0.5))
   \<and> JSON_parse example_runtime (planner_jsonText (planner_text example_runtime prose_answer)) = None
   \<and> (\<exists>f r. planner example_runtime price_question_state None (Inr prose_answer) = Inr f
            \<and> plannerRecommendation f = Val r
            \<and> action r = ''delegate'' \<and> confidence r = Some (Fin 0.5))"
proof -
  have h1: "messages price_question_state \<noteq> []"
    by code_simp
  have h2: "JSON_parse example_runtime
              (planner_jsonText (planner_text example_runtime prose_answer)) = None"
    by code_simp
  show ?thesis
    using planner_failure_degrades_to_delegate
            [OF h1, of example_runtime "''request timed out''" prose_answer]
      h1 h2 by blast
qed

end
